theory Spec2Isabelle
  imports Complex_Main
begin

section \<open>Values of the Python program\<close>

text \<open>
  The gateway (\<^verbatim>\<open>src/app.py\<close>) receives the parsed JSON body of an HTTP request and works
  on it with Python's dynamic operations. A parsed body is a value of \<open>json\<close>: \<open>JNull\<close> is
  \<^verbatim>\<open>None\<close>, \<open>JObj\<close> a \<^verbatim>\<open>dict\<close> given by its items in order (its keys are distinct),
  \<open>JArr\<close> a \<^verbatim>\<open>list\<close>, \<open>JStr\<close> a \<^verbatim>\<open>str\<close> (as the bytes of its UTF-8 form), \<open>JInt\<close> an
  \<^verbatim>\<open>int\<close> and \<open>JFloat\<close> a finite \<^verbatim>\<open>float\<close>.
\<close>

datatype json =
    JNull
  | JBool bool
  | JInt int
  | JFloat rat
  | JStr string
  | JArr "json list"
  | JObj "(string \<times> json) list"

text \<open>
  The exceptions the handler can meet, by their Python class. \<open>AttributeError a\<close> is a
  read of the attribute or method \<open>a\<close> that the object does not have, \<open>KeyError k\<close> a
  subscript with a key the dict does not hold, \<open>UpstreamError s\<close> any exception raised by
  the provider's SDK, with \<open>s\<close> its string form.
\<close>

datatype exn =
    AttributeError string
  | KeyError json
  | TypeError
  | IndexError
  | UpstreamError string

type_synonym dict = "string \<rightharpoonup> json"

text \<open>Truth value testing (\<^verbatim>\<open>if x:\<close>, \<^verbatim>\<open>not x\<close>).\<close>

fun truthy :: "json \<Rightarrow> bool" where
  "truthy JNull = False"
| "truthy (JBool b) = b"
| "truthy (JInt i) = (i \<noteq> 0)"
| "truthy (JFloat r) = (r \<noteq> 0)"
| "truthy (JStr s) = (s \<noteq> [])"
| "truthy (JArr xs) = (xs \<noteq> [])"
| "truthy (JObj kvs) = (kvs \<noteq> [])"

text \<open>\<^verbatim>\<open>d.get(key, default)\<close> on a dict.\<close>

definition dict_get :: "dict \<Rightarrow> string \<Rightarrow> json \<Rightarrow> json" where
  "dict_get d key dflt = (case d key of Some v \<Rightarrow> v | None \<Rightarrow> dflt)"

text \<open>
  \<^verbatim>\<open>x.get(key)\<close> on any value: only a dict has the method; the default is \<^verbatim>\<open>None\<close>.
\<close>

fun py_get :: "json \<Rightarrow> string \<Rightarrow> exn + json" where
  "py_get (JObj kvs) key = Inr (dict_get (map_of kvs) key JNull)"
| "py_get other key = Inl (AttributeError ''get'')"

text \<open>\<^verbatim>\<open>x[key]\<close> with a string key.\<close>

fun py_getitem :: "json \<Rightarrow> string \<Rightarrow> exn + json" where
  "py_getitem (JObj kvs) key =
     (case map_of kvs key of Some v \<Rightarrow> Inr v | None \<Rightarrow> Inl (KeyError (JStr key)))"
| "py_getitem other key = Inl TypeError"

text \<open>
  \<^verbatim>\<open>x[0]\<close>. A list gives its first element, a string its first character (here its first
  byte: the value is only ever asked for \<^verbatim>\<open>.get\<close>, which no string has), a dict looks
  the key \<open>0\<close> up, which a parsed JSON object never holds; the other values are not
  subscriptable.
\<close>

fun py_first :: "json \<Rightarrow> exn + json" where
  "py_first (JArr (x # xs)) = Inr x"
| "py_first (JArr []) = Inl IndexError"
| "py_first (JStr (c # cs)) = Inr (JStr [c])"
| "py_first (JStr []) = Inl IndexError"
| "py_first (JObj kvs) = Inl (KeyError (JInt 0))"
| "py_first other = Inl TypeError"

text \<open>
  \<^verbatim>\<open>x in d\<close> hashes \<open>x\<close> first: a list or a dict is unhashable and the test raises
  \<^verbatim>\<open>TypeError\<close>.
\<close>

fun hashable :: "json \<Rightarrow> bool" where
  "hashable (JArr xs) = False"
| "hashable (JObj kvs) = False"
| "hashable other = True"

text \<open>
  \<^verbatim>\<open>x[:100]\<close>: a string and a list can be sliced; a number or a boolean is not
  subscriptable and a dict cannot be indexed by a slice (both raise; the class of the
  second depends on the interpreter's version and is given as \<open>TypeError\<close>).
\<close>

fun sliceable :: "json \<Rightarrow> bool" where
  "sliceable (JStr s) = True"
| "sliceable (JArr xs) = True"
| "sliceable other = False"

text \<open>\<^verbatim>\<open>sep.join(items)\<close> on strings, and \<^verbatim>\<open>str(n)\<close> on an integer.\<close>

fun str_join :: "string \<Rightarrow> string list \<Rightarrow> string" where
  "str_join sep [] = []"
| "str_join sep [x] = x"
| "str_join sep (x # y # ys) = x @ sep @ str_join sep (y # ys)"

definition digit_char :: "nat \<Rightarrow> char" where
  "digit_char d = ''0123456789'' ! d"

function str_nat :: "nat \<Rightarrow> string" where
  "str_nat n = (if n < 10 then [digit_char n] else str_nat (n div 10) @ [digit_char (n mod 10)])"
  by pat_completeness auto
termination
  by (relation "measure (\<lambda>n. n)") auto

declare str_nat.simps [simp del]

definition str_int :: "int \<Rightarrow> string" where
  "str_int i = (if i < 0 then CHR ''-'' # str_nat (nat (- i)) else str_nat (nat i))"

section \<open>Configuration and the upstream client\<close>

text \<open>
  \<^verbatim>\<open>MODEL\<close> and \<^verbatim>\<open>HAIKU_MODEL\<close> are read from the environment when the module is loaded;
  \<^verbatim>\<open>SUPPORTED_MODELS\<close> is the alias table built from them.
\<close>

record config =
  MODEL :: string
  HAIKU_MODEL :: string

definition SUPPORTED_MODELS :: "config \<Rightarrow> (string \<times> string) list" where
  "SUPPORTED_MODELS cfg =
     [(''claude-3-sonnet-20240229'', MODEL cfg),
      (''claude-3-7-sonnet-20250219'', MODEL cfg),
      (''claude-3-haiku-20240307'', HAIKU_MODEL cfg),
      (''claude-3-5-haiku-20241022'', HAIKU_MODEL cfg)]"

text \<open>
  The state of a \<^verbatim>\<open>VertexClaudeClient\<close> that a request reads: \<^verbatim>\<open>self.model\<close> and
  \<^verbatim>\<open>self.tools\<close>. The module builds one, \<^verbatim>\<open>claude_client = VertexClaudeClient()\<close>, whose
  model is \<^verbatim>\<open>None or MODEL\<close> and whose tool list is empty; \<^verbatim>\<open>add_tools\<close> replaces the
  list.
\<close>

record client =
  model :: string
  tools :: "json list"

definition claude_client :: "config \<Rightarrow> client" where
  "claude_client cfg = \<lparr>model = MODEL cfg, tools = []\<rparr>"

definition add_tools :: "client \<Rightarrow> json list \<Rightarrow> client" where
  "add_tools self new_tools = self\<lparr>tools := new_tools\<rparr>"

text \<open>
  What the provider's SDK returns. A \<^verbatim>\<open>Message\<close> has the attributes below; a content block
  has a type and, when it is a text block, a text (\<open>block_text = None\<close>: the block has no
  such attribute). The optional attributes are \<^verbatim>\<open>None\<close> or a value.
\<close>

record usage =
  input_tokens :: int
  output_tokens :: int
  cache_creation_input_tokens :: "int option"
  cache_read_input_tokens :: "int option"

record block =
  block_type :: string
  block_text :: "string option"

record message =
  msg_id :: string
  msg_content :: "block list"
  msg_model :: string
  msg_role :: string
  msg_stop_reason :: "string option"
  msg_stop_sequence :: "string option"
  msg_type :: string
  msg_usage :: usage

text \<open>
  The two SDK operations the client ends in, each with the keyword arguments it is given:
  \<^verbatim>\<open>self.client.messages.create(**kwargs)\<close> and \<^verbatim>\<open>self.client.messages.stream(**kwargs)\<close>.
\<close>

datatype upstream_call = MessagesCreate dict | MessagesStream dict

fun call_params :: "upstream_call \<Rightarrow> dict" where
  "call_params (MessagesCreate kw) = kw"
| "call_params (MessagesStream kw) = kw"

text \<open>
  Everything outside the repository that a request depends on: \<^verbatim>\<open>json.dumps\<close>, \<^verbatim>\<open>str\<close> on
  an exception, the clock (\<open>time_ms\<close> is \<^verbatim>\<open>int(time.time() * 1000)\<close>), and the provider.
  \<open>messages_create\<close> returns a message or raises. \<open>messages_stream\<close> gives the text
  fragments that \<^verbatim>\<open>stream.text_stream\<close> yields, in order, and the exception that ends
  the session early, if one does (raised when the session is opened or between fragments).
\<close>

record runtime =
  json_dumps :: "json \<Rightarrow> string"
  exn_str :: "exn \<Rightarrow> string"
  time_ms :: int
  messages_create :: "dict \<Rightarrow> exn + message"
  messages_stream :: "dict \<Rightarrow> string list \<times> exn option"

subsection \<open>\<^verbatim>\<open>VertexClaudeClient.create_message\<close>\<close>

text \<open>
  The body of the method, up to the SDK call it ends in. The dict literal puts the
  caller's keyword arguments after its own three entries, so a caller's key replaces
  them; \<^verbatim>\<open>messages\<close> and \<^verbatim>\<open>system\<close> are filtered out of the caller's arguments.
  The log line for a system prompt slices it.
\<close>

definition VertexClaudeClient_create_message ::
  "client \<Rightarrow> string \<Rightarrow> json \<Rightarrow> json \<Rightarrow> json \<Rightarrow> dict \<Rightarrow> exn + upstream_call" where
  "VertexClaudeClient_create_message self prompt max_tokens system_prompt stream kwargs =
     (let kw = [''max_tokens'' \<mapsto> max_tokens,
                ''messages'' \<mapsto> JArr [JObj [(''role'', JStr ''user''), (''content'', JStr prompt)]],
                ''model'' \<mapsto> JStr (model self)]
               ++ (kwargs |` (- {''messages'', ''system''}))
      in case (if truthy system_prompt
               then (if sliceable system_prompt then Inr (kw(''system'' \<mapsto> system_prompt))
                     else Inl TypeError)
               else Inr kw) of
           Inl e \<Rightarrow> Inl e
         | Inr kw1 \<Rightarrow>
             (let kw2 = (if tools self \<noteq> [] then kw1(''tools'' \<mapsto> JArr (tools self)) else kw1)
              in if truthy stream then Inr (MessagesStream kw2) else Inr (MessagesCreate kw2)))"

text \<open>
  The two call expressions of the handler,
  \<^verbatim>\<open>claude_client.create_message(prompt=content, system_prompt=data.get('system'), **kwargs)\<close>
  and the same with \<^verbatim>\<open>stream=True\<close>. Python binds the arguments first: a key of
  \<^verbatim>\<open>kwargs\<close> that names an argument given explicitly (or \<^verbatim>\<open>self\<close>) is a \<^verbatim>\<open>TypeError\<close>, the
  keys \<^verbatim>\<open>max_tokens\<close> and \<^verbatim>\<open>stream\<close> fill the parameters of that name (defaults 1024 and
  \<^verbatim>\<open>False\<close>), and the rest is the method's \<^verbatim>\<open>**kwargs\<close>.
\<close>

definition call_create_message ::
  "client \<Rightarrow> string \<Rightarrow> json \<Rightarrow> bool \<Rightarrow> dict \<Rightarrow> exn + upstream_call" where
  "call_create_message self prompt system_prompt stream_given kwargs =
     (if kwargs ''prompt'' \<noteq> None \<or> kwargs ''system_prompt'' \<noteq> None \<or> kwargs ''self'' \<noteq> None
         \<or> (stream_given \<and> kwargs ''stream'' \<noteq> None)
      then Inl TypeError
      else VertexClaudeClient_create_message self prompt
             (dict_get kwargs ''max_tokens'' (JInt 1024))
             system_prompt
             (if stream_given then JBool True else dict_get kwargs ''stream'' (JBool False))
             (kwargs |` (- {''max_tokens'', ''stream''})))"

section \<open>The handler of \<^verbatim>\<open>POST /v1/messages\<close>\<close>

subsection \<open>Model selection\<close>

text \<open>
  \<^verbatim>\<open>requested_model in SUPPORTED_MODELS\<close> and the two branches that follow: the table's
  entry for a key of the table, \<^verbatim>\<open>MODEL\<close> otherwise. The keys are strings, so only a
  string can be one of them.
\<close>

definition resolve_model :: "config \<Rightarrow> json \<Rightarrow> exn + string" where
  "resolve_model cfg requested_model =
     (if \<not> hashable requested_model then Inl TypeError
      else case requested_model of
             JStr s \<Rightarrow> (case map_of (SUPPORTED_MODELS cfg) s of
                          Some upstream_id \<Rightarrow> Inr upstream_id
                        | None \<Rightarrow> Inr (MODEL cfg))
           | _ \<Rightarrow> Inr (MODEL cfg))"

subsection \<open>Content normalisation\<close>

text \<open>
  The generator \<^verbatim>\<open>item['text'] for item in content if item.get('type') == 'text'\<close>, run
  to its end as \<^verbatim>\<open>join\<close> does: the items are visited in order and the first one that
  raises ends the run.
\<close>

fun text_items :: "json list \<Rightarrow> exn + json list" where
  "text_items [] = Inr []"
| "text_items (item # rest) =
     (case py_get item ''type'' of
        Inl e \<Rightarrow> Inl e
      | Inr t \<Rightarrow>
          if t = JStr ''text''
          then (case py_getitem item ''text'' of
                  Inl e \<Rightarrow> Inl e
                | Inr v \<Rightarrow> (case text_items rest of Inl e \<Rightarrow> Inl e | Inr vs \<Rightarrow> Inr (v # vs)))
          else text_items rest)"

text \<open>\<^verbatim>\<open>join\<close> then wants every collected value to be a string.\<close>

fun as_strings :: "json list \<Rightarrow> exn + string list" where
  "as_strings [] = Inr []"
| "as_strings (JStr s # rest) =
     (case as_strings rest of Inl e \<Rightarrow> Inl e | Inr ss \<Rightarrow> Inr (s # ss))"
| "as_strings (other # rest) = Inl TypeError"

text \<open>
  The three branches on \<^verbatim>\<open>first_message.get('content')\<close>. The result \<open>None\<close> is the
  \<^verbatim>\<open>else\<close> branch, which the handler answers with status 400.
\<close>

definition normalize_content :: "json \<Rightarrow> exn + string option" where
  "normalize_content first_message =
     (case py_get first_message ''content'' of
        Inl e \<Rightarrow> Inl e
      | Inr c \<Rightarrow>
          (case c of
             JStr s \<Rightarrow> Inr (Some s)
           | JArr items \<Rightarrow>
               (case text_items items of
                  Inl e \<Rightarrow> Inl e
                | Inr vs \<Rightarrow>
                    (case as_strings vs of
                       Inl e \<Rightarrow> Inl e
                     | Inr ts \<Rightarrow> Inr (Some (str_join '' '' ts))))
           | _ \<Rightarrow> Inr None))"

subsection \<open>Responses\<close>

text \<open>
  A response is \<^verbatim>\<open>jsonify(body), status\<close>, or the event stream: the chunks the generator
  yields, in order, and the exception that ends it early, if one does. The stream's
  status is 200: it is sent with the first chunk.
\<close>

datatype response =
    JsonResponse nat json
  | EventStream "string list" "exn option"

fun status_code :: "response \<Rightarrow> nat" where
  "status_code (JsonResponse status body) = status"
| "status_code (EventStream events failure) = 200"

definition error_body :: "string \<Rightarrow> json" where
  "error_body msg = JObj [(''error'', JStr msg)]"

subsection \<open>The streaming generator\<close>

definition sse_event :: "(json \<Rightarrow> string) \<Rightarrow> string \<Rightarrow> json \<Rightarrow> string" where
  "sse_event dumps event_type payload =
     ''event: '' @ event_type @ [CHR 0x0A] @ ''data: '' @ dumps payload @ [CHR 0x0A, CHR 0x0A]"

text \<open>
  The loop over \<^verbatim>\<open>stream.text_stream\<close>: one event for each chunk, and the text
  accumulated so far.
\<close>

fun stream_chunks :: "(json \<Rightarrow> string) \<Rightarrow> string list \<Rightarrow> string \<Rightarrow> string list \<times> string" where
  "stream_chunks dumps [] accumulated_text = ([], accumulated_text)"
| "stream_chunks dumps (chunk # rest) accumulated_text =
     (let delta = JObj [(''type'', JStr ''content_block_delta''),
                        (''index'', JInt 0),
                        (''delta'', JObj [(''type'', JStr ''text_delta''), (''text'', JStr chunk)])];
          (events, final_text) = stream_chunks dumps rest (accumulated_text @ chunk)
      in (sse_event dumps ''content_block_delta'' delta # events, final_text))"

definition message_start :: "config \<Rightarrow> string \<Rightarrow> json" where
  "message_start cfg message_id =
     JObj [(''type'', JStr ''message_start''),
           (''message'', JObj [(''id'', JStr message_id),
                               (''type'', JStr ''message''),
                               (''role'', JStr ''assistant''),
                               (''content'', JArr []),
                               (''model'', JStr (MODEL cfg)),
                               (''stop_reason'', JNull),
                               (''stop_sequence'', JNull),
                               (''usage'', JObj [(''input_tokens'', JInt 1),
                                                 (''output_tokens'', JInt 1)])])]"

definition block_start :: json where
  "block_start =
     JObj [(''type'', JStr ''content_block_start''),
           (''index'', JInt 0),
           (''content_block'', JObj [(''type'', JStr ''text''), (''text'', JStr [])])]"

definition block_stop :: json where
  "block_stop = JObj [(''type'', JStr ''content_block_stop''), (''index'', JInt 0)]"

definition message_delta :: "string \<Rightarrow> json" where
  "message_delta accumulated_text =
     JObj [(''type'', JStr ''message_delta''),
           (''delta'', JObj [(''stop_reason'', JStr ''end_turn''),
                             (''stop_sequence'', JNull),
                             (''content'', JArr [JObj [(''type'', JStr ''text''),
                                                       (''text'', JStr accumulated_text)]])]),
           (''usage'', JObj [(''input_tokens'', JInt 100), (''output_tokens'', JInt 150)])]"

definition message_stop :: json where
  "message_stop = JObj [(''type'', JStr ''message_stop'')]"

text \<open>
  \<^verbatim>\<open>generate\<close> runs when the response is sent, after the handler has returned. It yields
  two events, then calls the client; an exception from there on ends the stream where it
  stands. The result is the stream and the SDK calls made. The call passes
  \<^verbatim>\<open>stream=True\<close>, so the client returns a stream manager; a message in its place would
  make the \<^verbatim>\<open>with\<close> statement raise.
\<close>

definition generate ::
  "runtime \<Rightarrow> config \<Rightarrow> client \<Rightarrow> string \<Rightarrow> dict \<Rightarrow> dict \<Rightarrow> response \<times> upstream_call list" where
  "generate rt cfg cl content data kwargs =
     (let dumps = json_dumps rt;
          message_id = ''msg_'' @ str_int (time_ms rt);
          opening = [sse_event dumps ''message_start'' (message_start cfg message_id),
                     sse_event dumps ''content_block_start'' block_start]
      in case call_create_message cl content (dict_get data ''system'' JNull) True kwargs of
           Inl e \<Rightarrow> (EventStream opening (Some e), [])
         | Inr (MessagesCreate kw) \<Rightarrow>
             (case messages_create rt kw of
                Inl e \<Rightarrow> (EventStream opening (Some e), [MessagesCreate kw])
              | Inr m \<Rightarrow> (EventStream opening (Some TypeError), [MessagesCreate kw]))
         | Inr (MessagesStream kw) \<Rightarrow>
             (case messages_stream rt kw of
                (chunks, failure) \<Rightarrow>
                  (case stream_chunks dumps chunks [] of
                     (deltas, accumulated_text) \<Rightarrow>
                       (case failure of
                          Some e \<Rightarrow> (EventStream (opening @ deltas) (Some e), [MessagesStream kw])
                        | None \<Rightarrow>
                            (EventStream
                               (opening @ deltas @
                                [sse_event dumps ''content_block_stop'' block_stop,
                                 sse_event dumps ''message_delta'' (message_delta accumulated_text),
                                 sse_event dumps ''message_stop'' message_stop])
                               None,
                             [MessagesStream kw])))))"

subsection \<open>The non-streaming response body\<close>

fun render_blocks :: "block list \<Rightarrow> exn + json list" where
  "render_blocks [] = Inr []"
| "render_blocks (b # bs) =
     (case block_text b of
        None \<Rightarrow> Inl (AttributeError ''text'')
      | Some t \<Rightarrow>
          (case render_blocks bs of
             Inl e \<Rightarrow> Inl e
           | Inr js \<Rightarrow> Inr (JObj [(''type'', JStr (block_type b)), (''text'', JStr t)] # js)))"

definition opt_str :: "string option \<Rightarrow> json" where
  "opt_str v = (case v of None \<Rightarrow> JNull | Some s \<Rightarrow> JStr s)"

definition opt_int :: "int option \<Rightarrow> json" where
  "opt_int v = (case v of None \<Rightarrow> JNull | Some i \<Rightarrow> JInt i)"

text \<open>The dict \<^verbatim>\<open>response\<close> built from the \<^verbatim>\<open>Message\<close> object.\<close>

definition render_message :: "message \<Rightarrow> exn + json" where
  "render_message m =
     (case render_blocks (msg_content m) of
        Inl e \<Rightarrow> Inl e
      | Inr blocks \<Rightarrow>
          Inr (JObj [(''id'', JStr (msg_id m)),
                     (''content'', JArr blocks),
                     (''model'', JStr (msg_model m)),
                     (''role'', JStr (msg_role m)),
                     (''stop_reason'', opt_str (msg_stop_reason m)),
                     (''stop_sequence'', opt_str (msg_stop_sequence m)),
                     (''type'', JStr (msg_type m)),
                     (''usage'',
                      JObj [(''input_tokens'', JInt (input_tokens (msg_usage m))),
                            (''output_tokens'', JInt (output_tokens (msg_usage m))),
                            (''cache_creation_input_tokens'',
                             opt_int (cache_creation_input_tokens (msg_usage m))),
                            (''cache_read_input_tokens'',
                             opt_int (cache_read_input_tokens (msg_usage m)))])]))"

subsection \<open>\<^verbatim>\<open>create_message\<close>\<close>

text \<open>
  The handler up to the point where it has the prompt and the keyword arguments: it
  either returns a response at once (\<open>Reject\<close>) or goes on (\<open>Proceed\<close>) with the value of
  \<^verbatim>\<open>stream\<close>, the prompt \<^verbatim>\<open>content\<close>, the dict \<^verbatim>\<open>data\<close> (whose \<^verbatim>\<open>model\<close> entry it has
  overwritten) and \<^verbatim>\<open>kwargs\<close>.
\<close>

datatype prepared =
    Reject response
  | Proceed json string dict dict

definition prepare :: "config \<Rightarrow> json \<Rightarrow> exn + prepared" where
  "prepare cfg data =
     (if \<not> truthy data
      then Inr (Reject (JsonResponse 400 (error_body ''No JSON data provided'')))
      else case data of
        JObj kvs \<Rightarrow>
          (case resolve_model cfg (dict_get (map_of kvs) ''model'' JNull) of
             Inl e \<Rightarrow> Inl e
           | Inr upstream_id \<Rightarrow>
               (let d = (map_of kvs)(''model'' \<mapsto> JStr upstream_id);
                    stream = dict_get d ''stream'' (JBool False);
                    messages = dict_get d ''messages'' (JArr [])
                in if \<not> truthy messages
                   then Inr (Reject (JsonResponse 400 (error_body ''No messages provided'')))
                   else case py_first messages of
                     Inl e \<Rightarrow> Inl e
                   | Inr first_message \<Rightarrow>
                       (case normalize_content first_message of
                          Inl e \<Rightarrow> Inl e
                        | Inr None \<Rightarrow>
                            Inr (Reject (JsonResponse 400
                                   (error_body ''Invalid message content format'')))
                        | Inr (Some content) \<Rightarrow>
                            Inr (Proceed stream content d
                                   (d |` (- {''messages'', ''system'', ''stream''}))))))
      | _ \<Rightarrow> Inl (AttributeError ''get''))"

text \<open>
  The body of the \<^verbatim>\<open>try\<close> block: the response it returns or the exception it raises, and
  the SDK calls made for the request. For a streaming request the block returns the
  response object at once; the generator's calls are made when the response is sent, and
  nothing the generator raises reaches the \<^verbatim>\<open>except\<close> clause. The non-streaming call
  leaves \<^verbatim>\<open>stream\<close> at its default, so the client returns a message; a stream manager in
  its place has no attribute \<^verbatim>\<open>id\<close>.
\<close>

definition create_message_body ::
  "runtime \<Rightarrow> config \<Rightarrow> client \<Rightarrow> json \<Rightarrow> (exn + response) \<times> upstream_call list" where
  "create_message_body rt cfg cl data =
     (case prepare cfg data of
        Inl e \<Rightarrow> (Inl e, [])
      | Inr (Reject r) \<Rightarrow> (Inr r, [])
      | Inr (Proceed stream content d kwargs) \<Rightarrow>
          if truthy stream
          then (case generate rt cfg cl content d kwargs of (r, calls) \<Rightarrow> (Inr r, calls))
          else (case call_create_message cl content (dict_get d ''system'' JNull) False kwargs of
                  Inl e \<Rightarrow> (Inl e, [])
                | Inr (MessagesStream kw) \<Rightarrow> (Inl (AttributeError ''id''), [MessagesStream kw])
                | Inr (MessagesCreate kw) \<Rightarrow>
                    (case messages_create rt kw of
                       Inl e \<Rightarrow> (Inl e, [MessagesCreate kw])
                     | Inr m \<Rightarrow>
                         (case render_message m of
                            Inl e \<Rightarrow> (Inl e, [MessagesCreate kw])
                          | Inr body \<Rightarrow> (Inr (JsonResponse 200 body), [MessagesCreate kw])))))"

text \<open>The handler: the \<^verbatim>\<open>try\<close> block under \<^verbatim>\<open>except Exception as e\<close>.\<close>

definition create_message ::
  "runtime \<Rightarrow> config \<Rightarrow> client \<Rightarrow> json \<Rightarrow> response \<times> upstream_call list" where
  "create_message rt cfg cl data =
     (case create_message_body rt cfg cl data of
        (Inl e, calls) \<Rightarrow> (JsonResponse 500 (error_body (exn_str rt e)), calls)
      | (Inr r, calls) \<Rightarrow> (r, calls))"

section \<open>Notions of the specification\<close>

text \<open>
  The definitions of this section are not code of the repository: they write down the
  words of the specification that the theorems below compare the code with.
\<close>

text \<open>A content part is tagged "text"; the text it carries, when that is a string.\<close>

definition is_text_part :: "json \<Rightarrow> bool" where
  "is_text_part p = (case p of JObj kv \<Rightarrow> map_of kv ''type'' = Some (JStr ''text'') | _ \<Rightarrow> False)"

definition part_text :: "json \<Rightarrow> string option" where
  "part_text p =
     (case p of
        JObj kv \<Rightarrow> (case map_of kv ''text'' of Some (JStr t) \<Rightarrow> Some t | _ \<Rightarrow> None)
      | _ \<Rightarrow> None)"

text \<open>
  A typed content part: a JSON object, which carries a string as its text when it is
  tagged "text".
\<close>

definition typed_part :: "json \<Rightarrow> bool" where
  "typed_part p =
     (case p of JObj kv \<Rightarrow> (is_text_part p \<longrightarrow> part_text p \<noteq> None) | _ \<Rightarrow> False)"

text \<open>The texts of exactly the parts tagged "text", in order.\<close>

definition texts_of_text_parts :: "json list \<Rightarrow> string list" where
  "texts_of_text_parts parts =
     List.map_filter (\<lambda>p. if is_text_part p then part_text p else None) parts"

text \<open>Concatenation with a single space between consecutive texts.\<close>

fun single_space_join :: "string list \<Rightarrow> string" where
  "single_space_join [] = []"
| "single_space_join (t # ts) = t @ concat (map (\<lambda>u. CHR '' '' # u) ts)"

text \<open>
  The fields of a Chat Response as section 3 of the specification enumerates them: an
  identifier, a role, a list of content blocks, a stop reason, a stop sequence, a model
  identifier and a usage record.
\<close>

definition spec_chat_response_fields :: "string list" where
  "spec_chat_response_fields =
     [''id'', ''role'', ''content'', ''stop_reason'', ''stop_sequence'', ''model'', ''usage'']"

text \<open>
  The reserved set of the specification's adapter, whose members it says are never
  passthrough parameters.
\<close>

definition spec_reserved :: "string set" where
  "spec_reserved = {''messages'', ''system'', ''model'', ''stream''}"

text \<open>
  The static alias table as the specification gives it: the four legacy aliases name the
  primary or the secondary identifier, and anything else falls back to the primary one.
\<close>

definition spec_upstream_identifier :: "config \<Rightarrow> json \<Rightarrow> string" where
  "spec_upstream_identifier cfg alias =
     (if alias = JStr ''claude-3-sonnet-20240229'' \<or> alias = JStr ''claude-3-7-sonnet-20250219''
      then MODEL cfg
      else if alias = JStr ''claude-3-haiku-20240307'' \<or> alias = JStr ''claude-3-5-haiku-20241022''
      then HAIKU_MODEL cfg
      else MODEL cfg)"

text \<open>
  A body that the call of the client accepts: it has no field named after an argument
  that the handler passes itself (\<open>prompt\<close>, \<open>system_prompt\<close>) or after \<open>self\<close>, and its
  \<open>system\<close> field, when it is true in Python's sense, is a string or a list.
\<close>

definition callable_body :: "(string \<times> json) list \<Rightarrow> bool" where
  "callable_body kvs =
     (map_of kvs ''prompt'' = None \<and> map_of kvs ''system_prompt'' = None \<and>
      map_of kvs ''self'' = None \<and>
      (truthy (dict_get (map_of kvs) ''system'' JNull)
         \<longrightarrow> sliceable (dict_get (map_of kvs) ''system'' JNull)))"

text \<open>Readers of a response and of a call.\<close>

fun json_keys :: "json \<Rightarrow> string list" where
  "json_keys (JObj kvs) = map fst kvs"
| "json_keys other = []"

fun response_body :: "response \<Rightarrow> json" where
  "response_body (JsonResponse status body) = body"
| "response_body (EventStream events failure) = JNull"

definition call_param :: "string \<Rightarrow> upstream_call \<Rightarrow> json option" where
  "call_param key c = call_params c key"

fun is_stream_call :: "upstream_call \<Rightarrow> bool" where
  "is_stream_call (MessagesStream kw) = True"
| "is_stream_call (MessagesCreate kw) = False"

section \<open>A stubbed environment\<close>

text \<open>
  The defaults of \<^verbatim>\<open>CLAUDE_MODEL\<close> and \<^verbatim>\<open>CLAUDE_HAIKU_MODEL\<close>, and stand-ins for the
  provider: one that answers every call with a fixed message or with the fragments
  \<open>Hel\<close>, \<open>lo\<close>, and one whose every call fails.
\<close>

definition default_config :: config where
  "default_config =
     \<lparr>MODEL = ''claude-3-7-sonnet@20250219'', HAIKU_MODEL = ''claude-3-5-haiku@20241022''\<rparr>"

definition stub_dumps :: "json \<Rightarrow> string" where
  "stub_dumps j = (case j of JObj kvs \<Rightarrow> ''{...}'' | _ \<Rightarrow> ''...'')"

fun stub_exn_str :: "exn \<Rightarrow> string" where
  "stub_exn_str (AttributeError a) = ''object has no attribute '' @ a"
| "stub_exn_str (KeyError k) = ''key''"
| "stub_exn_str TypeError = ''type error''"
| "stub_exn_str IndexError = ''index out of range''"
| "stub_exn_str (UpstreamError s) = s"

definition fixed_message :: message where
  "fixed_message =
     \<lparr>msg_id = ''msg_01'',
      msg_content = [\<lparr>block_type = ''text'', block_text = Some ''Hello''\<rparr>],
      msg_model = ''claude-3-7-sonnet@20250219'',
      msg_role = ''assistant'',
      msg_stop_reason = Some ''end_turn'',
      msg_stop_sequence = None,
      msg_type = ''message'',
      msg_usage = \<lparr>input_tokens = 10, output_tokens = 5,
                   cache_creation_input_tokens = None, cache_read_input_tokens = Some 0\<rparr>\<rparr>"

definition stub_runtime :: runtime where
  "stub_runtime =
     \<lparr>json_dumps = stub_dumps, exn_str = stub_exn_str, time_ms = 1700000000000,
      messages_create = (\<lambda>kw. Inr fixed_message),
      messages_stream = (\<lambda>kw. ([''Hel'', ''lo''], None))\<rparr>"

definition failing_runtime :: runtime where
  "failing_runtime =
     \<lparr>json_dumps = stub_dumps, exn_str = stub_exn_str, time_ms = 1700000000000,
      messages_create = (\<lambda>kw. Inl (UpstreamError ''overloaded'')),
      messages_stream = (\<lambda>kw. ([], Some (UpstreamError ''overloaded'')))\<rparr>"


text \<open>Request bodies used as examples.\<close>

definition user_message :: "json \<Rightarrow> json" where
  "user_message content = JObj [(''role'', JStr ''user''), (''content'', content)]"

definition haiku_request :: json where
  "haiku_request =
     JObj [(''model'', JStr ''claude-3-haiku-20240307''),
           (''max_tokens'', JInt 64),
           (''temperature'', JInt 0),
           (''messages'', JArr [user_message (JStr ''hi'')])]"

definition streaming_request :: json where
  "streaming_request =
     JObj [(''model'', JStr ''claude-3-7-sonnet-20250219''),
           (''stream'', JBool True),
           (''messages'', JArr [user_message (JStr ''hi'')])]"

section \<open>Facts about the handler\<close>

lemma call_stream_given:
  "call_create_message cl content sys True kwargs = Inr c \<Longrightarrow> \<exists>kw. c = MessagesStream kw"
  by (auto simp: call_create_message_def VertexClaudeClient_create_message_def Let_def
      split: if_splits sum.splits)

lemma call_stream_absent:
  "kwargs ''stream'' = None \<Longrightarrow> call_create_message cl content sys False kwargs = Inr c
    \<Longrightarrow> \<exists>kw. c = MessagesCreate kw"
  by (auto simp: call_create_message_def VertexClaudeClient_create_message_def Let_def dict_get_def
      split: if_splits sum.splits)

lemma stream_chunks_eq:
  "stream_chunks dumps chunks acc =
     (map (\<lambda>chunk. sse_event dumps ''content_block_delta''
            (JObj [(''type'', JStr ''content_block_delta''), (''index'', JInt 0),
                   (''delta'', JObj [(''type'', JStr ''text_delta''), (''text'', JStr chunk)])]))
          chunks,
      acc @ concat chunks)"
  by (induction chunks arbitrary: acc) (auto simp: Let_def)

lemma prepare_Proceed:
  assumes "prepare cfg data = Inr (Proceed stream content d kwargs)"
  shows "\<exists>kvs upstream_id first_message.
           data = JObj kvs \<and>
           resolve_model cfg (dict_get (map_of kvs) ''model'' JNull) = Inr upstream_id \<and>
           d = (map_of kvs)(''model'' \<mapsto> JStr upstream_id) \<and>
           stream = dict_get d ''stream'' (JBool False) \<and>
           truthy (dict_get d ''messages'' (JArr [])) \<and>
           py_first (dict_get d ''messages'' (JArr [])) = Inr first_message \<and>
           normalize_content first_message = Inr (Some content) \<and>
           kwargs = d |` (- {''messages'', ''system'', ''stream''})"
  using assms
  by (auto simp: prepare_def Let_def split: if_splits json.splits sum.splits option.splits)

lemma body_streaming:
  assumes "prepare cfg data = Inr (Proceed stream content d kwargs)" and "truthy stream"
  shows "create_message rt cfg cl data = generate rt cfg cl content d kwargs"
  using assms by (simp add: create_message_def create_message_body_def split: prod.splits)

lemma generate_complete:
  assumes "call_create_message cl content (dict_get d ''system'' JNull) True kwargs = Inr (MessagesStream kw)"
      and "messages_stream rt kw = (fragments, None)"
  shows "generate rt cfg cl content d kwargs =
     (EventStream
        ([sse_event (json_dumps rt) ''message_start'' (message_start cfg (''msg_'' @ str_int (time_ms rt))),
          sse_event (json_dumps rt) ''content_block_start'' block_start]
         @ map (\<lambda>chunk. sse_event (json_dumps rt) ''content_block_delta''
            (JObj [(''type'', JStr ''content_block_delta''), (''index'', JInt 0),
                   (''delta'', JObj [(''type'', JStr ''text_delta''), (''text'', JStr chunk)])])) fragments
         @ [sse_event (json_dumps rt) ''content_block_stop'' block_stop,
            sse_event (json_dumps rt) ''message_delta'' (message_delta (concat fragments)),
            sse_event (json_dumps rt) ''message_stop'' message_stop]) None,
      [MessagesStream kw])"
  using assms by (simp add: generate_def Let_def stream_chunks_eq)

lemma generate_calls:
  "snd (generate rt cfg cl content d kwargs) = [] \<or>
   (\<exists>c. snd (generate rt cfg cl content d kwargs) = [c] \<and>
        call_create_message cl content (dict_get d ''system'' JNull) True kwargs = Inr c)"
  by (auto simp: generate_def Let_def split: sum.splits upstream_call.splits prod.splits option.splits)

lemma prepare_kwargs_no_stream:
  "prepare cfg data = Inr (Proceed stream content d kwargs) \<Longrightarrow> kwargs ''stream'' = None"
  by (drule prepare_Proceed) (auto simp: restrict_map_def)

text \<open>Every SDK call of a request comes from one of the handler's two call expressions.\<close>

lemma create_message_calls:
  "snd (create_message rt cfg cl data) = [] \<or>
   (\<exists>stream content d kwargs c.
       prepare cfg data = Inr (Proceed stream content d kwargs) \<and>
       snd (create_message rt cfg cl data) = [c] \<and>
       call_create_message cl content (dict_get d ''system'' JNull) (truthy stream) kwargs = Inr c)"
proof (cases "prepare cfg data")
  case (Inl e)
  then show ?thesis by (simp add: create_message_def create_message_body_def)
next
  case (Inr p)
  show ?thesis
  proof (cases p)
    case (Reject r)
    with Inr show ?thesis by (simp add: create_message_def create_message_body_def)
  next
    case (Proceed stream content d kwargs)
    show ?thesis
    proof (cases "truthy stream")
      case True
      with Inr Proceed have "create_message rt cfg cl data = generate rt cfg cl content d kwargs"
        by (simp add: body_streaming)
      with generate_calls [of rt cfg cl content d kwargs] Inr Proceed True show ?thesis
        by auto
    next
      case False
      with Inr Proceed show ?thesis
        by (auto simp: create_message_def create_message_body_def
            split: sum.splits upstream_call.splits)
    qed
  qed
qed

lemma resolve_model_hashable:
  assumes "hashable v"
  obtains upstream_id where "resolve_model cfg v = Inr upstream_id"
proof (cases v)
  case (JStr s)
  with that show ?thesis
    by (cases "map_of (SUPPORTED_MODELS cfg) s") (simp_all add: resolve_model_def)
qed (use assms that in \<open>simp_all add: resolve_model_def\<close>)

lemma call_params_of:
  assumes "call_create_message cl content sys sg kwargs = Inr c"
  shows "call_params c ''model''
           = (case kwargs ''model'' of Some v \<Rightarrow> Some v | None \<Rightarrow> Some (JStr (model cl)))"
    and "call_params c ''max_tokens'' = Some (dict_get kwargs ''max_tokens'' (JInt 1024))"
    and "call_params c ''system'' = (if truthy sys then Some sys else None)"
    and "call_params c ''tools'' = (if tools cl \<noteq> [] then Some (JArr (tools cl)) else kwargs ''tools'')"
    and "call_params c ''stream'' = None"
    and "k \<notin> {''max_tokens'', ''messages'', ''model'', ''system'', ''tools'', ''stream''}
           \<Longrightarrow> call_params c k = kwargs k"
  using assms
  by (auto simp: call_create_message_def VertexClaudeClient_create_message_def Let_def
      map_add_def restrict_map_def dict_get_def split: if_splits sum.splits option.splits)

lemma call_messages_param:
  assumes "call_create_message cl content sys sg kwargs = Inr c"
  shows "call_params c ''messages''
     = Some (JArr [JObj [(''role'', JStr ''user''), (''content'', JStr content)]])"
  using assms
  by (auto simp: call_create_message_def VertexClaudeClient_create_message_def Let_def
      map_add_def restrict_map_def split: if_splits sum.splits)

lemma create_message_prepare_raises:
  "prepare cfg data = Inl e
    \<Longrightarrow> create_message rt cfg cl data = (JsonResponse 500 (error_body (exn_str rt e)), [])"
  by (simp add: create_message_def create_message_body_def)

lemma create_message_prepare_rejects:
  "prepare cfg data = Inr (Reject r) \<Longrightarrow> create_message rt cfg cl data = (r, [])"
  by (simp add: create_message_def create_message_body_def)

lemma resolve_model_table:
  "hashable v \<Longrightarrow> resolve_model cfg v = Inr (spec_upstream_identifier cfg v)"
  by (cases v) (auto simp: resolve_model_def SUPPORTED_MODELS_def spec_upstream_identifier_def)

lemma prepare_proceeds:
  assumes "map_of kvs ''messages'' = Some (JArr (first_message # history))"
      and "resolve_model cfg (dict_get (map_of kvs) ''model'' JNull) = Inr upstream_id"
      and "normalize_content first_message = Inr (Some content)"
  shows "prepare cfg (JObj kvs) =
     Inr (Proceed (dict_get (map_of kvs) ''stream'' (JBool False)) content
            ((map_of kvs)(''model'' \<mapsto> JStr upstream_id))
            (((map_of kvs)(''model'' \<mapsto> JStr upstream_id))
               |` (- {''messages'', ''system'', ''stream''})))"
proof -
  from assms(1) have "kvs \<noteq> []" by auto
  with assms show ?thesis
    by (simp add: prepare_def Let_def dict_get_def)
qed

lemma call_succeeds:
  assumes "kwargs ''prompt'' = None" "kwargs ''system_prompt'' = None" "kwargs ''self'' = None"
      and "kwargs ''stream'' = None" and "truthy sys \<longrightarrow> sliceable sys"
  shows "\<exists>c. call_create_message cl content sys sg kwargs = Inr c"
  using assms
  by (simp add: call_create_message_def VertexClaudeClient_create_message_def Let_def)

lemma generate_one_call:
  "call_create_message cl content (dict_get d ''system'' JNull) True kwargs = Inr c
    \<Longrightarrow> snd (generate rt cfg cl content d kwargs) = [c]"
  by (auto simp: generate_def Let_def split: upstream_call.splits sum.splits prod.splits option.splits)

lemma create_message_one_call:
  assumes "prepare cfg data = Inr (Proceed stream content d kwargs)"
      and "call_create_message cl content (dict_get d ''system'' JNull) (truthy stream) kwargs = Inr c"
  shows "snd (create_message rt cfg cl data) = [c]"
proof (cases "truthy stream")
  case True
  with assms generate_one_call [of cl content d kwargs c rt cfg] show ?thesis
    by (simp add: body_streaming)
next
  case False
  with assms show ?thesis
    by (auto simp: create_message_def create_message_body_def
        split: upstream_call.splits sum.splits)
qed

text \<open>
  A request that passes validation and that the client call accepts reaches the provider
  exactly once, with the prompt and with the identifier its \<open>model\<close> field resolves to.
\<close>

lemma handler_calls_once:
  assumes msgs: "map_of kvs ''messages'' = Some (JArr (first_message # history))"
      and model: "hashable (dict_get (map_of kvs) ''model'' JNull)"
      and norm: "normalize_content first_message = Inr (Some content)"
      and body: "callable_body kvs"
  shows "\<exists>c. snd (create_message rt cfg cl (JObj kvs)) = [c] \<and>
           call_param ''messages'' c
             = Some (JArr [JObj [(''role'', JStr ''user''), (''content'', JStr content)]]) \<and>
           call_param ''model'' c
             = Some (JStr (spec_upstream_identifier cfg (dict_get (map_of kvs) ''model'' JNull))) \<and>
           is_stream_call c = truthy (dict_get (map_of kvs) ''stream'' (JBool False))"
proof -
  let ?id = "spec_upstream_identifier cfg (dict_get (map_of kvs) ''model'' JNull)"
  define d where "d = (map_of kvs)(''model'' \<mapsto> JStr ?id)"
  define kwargs where "kwargs = d |` (- {''messages'', ''system'', ''stream''})"
  define stream where "stream = dict_get (map_of kvs) ''stream'' (JBool False)"
  from prepare_proceeds [OF msgs resolve_model_table [OF model] norm]
  have prep: "prepare cfg (JObj kvs) = Inr (Proceed stream content d kwargs)"
    by (simp add: d_def kwargs_def stream_def)
  have sys: "dict_get d ''system'' JNull = dict_get (map_of kvs) ''system'' JNull"
    by (simp add: d_def dict_get_def)
  from body have "kwargs ''prompt'' = None" "kwargs ''system_prompt'' = None"
    "kwargs ''self'' = None" "kwargs ''stream'' = None"
    "truthy (dict_get d ''system'' JNull) \<longrightarrow> sliceable (dict_get d ''system'' JNull)"
    unfolding sys by (simp_all add: callable_body_def kwargs_def d_def restrict_map_def)
  from call_succeeds [OF this] obtain c where
    call: "call_create_message cl content (dict_get d ''system'' JNull) (truthy stream) kwargs = Inr c"
    by blast
  have km: "kwargs ''model'' = Some (JStr ?id)"
    by (simp add: kwargs_def d_def restrict_map_def)
  from call_params_of(1) [OF call] km have "call_param ''model'' c = Some (JStr ?id)"
    by (simp add: call_param_def)
  moreover from call_messages_param [OF call] have "call_param ''messages'' c
      = Some (JArr [JObj [(''role'', JStr ''user''), (''content'', JStr content)]])"
    by (simp add: call_param_def)
  moreover have "is_stream_call c = truthy stream"
  proof (cases "truthy stream")
    case True
    with call call_stream_given [of cl content "dict_get d ''system'' JNull" kwargs c]
    show ?thesis by auto
  next
    case False
    with call have "call_create_message cl content (dict_get d ''system'' JNull) False kwargs
        = Inr c" by simp
    from call_stream_absent [OF prepare_kwargs_no_stream [OF prep] this] False
    show ?thesis by auto
  qed
  moreover note create_message_one_call [OF prep call, of rt]
  ultimately show ?thesis unfolding stream_def by blast
qed

text \<open>The answer, given the SDK call of the request and what the provider does with it.\<close>

lemma answer_after_create:
  assumes "snd (create_message rt cfg cl data) = [MessagesCreate kw]"
  shows "fst (create_message rt cfg cl data) =
     (case messages_create rt kw of
        Inl e \<Rightarrow> JsonResponse 500 (JObj [(''error'', JStr (exn_str rt e))])
      | Inr m \<Rightarrow>
          (case render_message m of
             Inl e \<Rightarrow> JsonResponse 500 (JObj [(''error'', JStr (exn_str rt e))])
           | Inr body \<Rightarrow> JsonResponse 200 body))"
proof -
  from create_message_calls [of rt cfg cl data] assms
  obtain stream content d kwargs where
    prep: "prepare cfg data = Inr (Proceed stream content d kwargs)" and
    call: "call_create_message cl content (dict_get d ''system'' JNull) (truthy stream) kwargs
             = Inr (MessagesCreate kw)"
    by auto
  have "\<not> truthy stream"
  proof
    assume "truthy stream"
    with call have "call_create_message cl content (dict_get d ''system'' JNull) True kwargs
             = Inr (MessagesCreate kw)" by simp
    from call_stream_given [OF this] show False by simp
  qed
  with prep call show ?thesis
    by (simp add: create_message_def create_message_body_def error_body_def
        split: sum.splits)
qed


section \<open>The streaming event sequence\<close>

text \<open>
  Claim C1. Whenever the handler opens a streaming session with the provider and the
  session yields a finite sequence of text fragments and ends normally, the response is an
  event stream of exactly these events, in this order: one \<open>message_start\<close>; one
  \<open>content_block_start\<close> with index 0 and empty text; one \<open>content_block_delta\<close> for each
  fragment, in arrival order, carrying that fragment's text; one \<open>content_block_stop\<close> with
  index 0; one \<open>message_delta\<close> whose delta has stop reason \<open>end_turn\<close> and whose content
  text is the concatenation of all fragments in order; one \<open>message_stop\<close>. Each event is
  the text \<open>event: <type>\<close>, a newline, \<open>data: <json>\<close> and two newlines, and the stream
  ends without an exception.
\<close>

theorem streaming_event_sequence:
  assumes "snd (create_message rt cfg cl data) = [MessagesStream kw]"
      and "messages_stream rt kw = (fragments, None)"
  shows "fst (create_message rt cfg cl data) =
     (let frame = (\<lambda>event_type payload.
            ''event: '' @ event_type @ [CHR 0x0A] @ ''data: '' @ json_dumps rt payload
            @ [CHR 0x0A, CHR 0x0A])
      in EventStream
        ([frame ''message_start'' (message_start cfg (''msg_'' @ str_int (time_ms rt))),
          frame ''content_block_start''
            (JObj [(''type'', JStr ''content_block_start''), (''index'', JInt 0),
                   (''content_block'', JObj [(''type'', JStr ''text''), (''text'', JStr [])])])]
         @ map (\<lambda>fragment. frame ''content_block_delta''
            (JObj [(''type'', JStr ''content_block_delta''), (''index'', JInt 0),
                   (''delta'', JObj [(''type'', JStr ''text_delta''), (''text'', JStr fragment)])]))
             fragments
         @ [frame ''content_block_stop''
              (JObj [(''type'', JStr ''content_block_stop''), (''index'', JInt 0)]),
            frame ''message_delta''
              (JObj [(''type'', JStr ''message_delta''),
                     (''delta'', JObj [(''stop_reason'', JStr ''end_turn''),
                                       (''stop_sequence'', JNull),
                                       (''content'', JArr [JObj [(''type'', JStr ''text''),
                                                                 (''text'', JStr (concat fragments))]])]),
                     (''usage'', JObj [(''input_tokens'', JInt 100), (''output_tokens'', JInt 150)])]),
            frame ''message_stop'' (JObj [(''type'', JStr ''message_stop'')])])
        None)"
proof -
  from create_message_calls [of rt cfg cl data] assms(1)
  obtain stream content d kwargs where
    prep: "prepare cfg data = Inr (Proceed stream content d kwargs)" and
    call: "call_create_message cl content (dict_get d ''system'' JNull) (truthy stream) kwargs
             = Inr (MessagesStream kw)"
    by auto
  have ts: "truthy stream"
  proof (rule ccontr)
    assume "\<not> truthy stream"
    with call have "call_create_message cl content (dict_get d ''system'' JNull) False kwargs
             = Inr (MessagesStream kw)" by simp
    from call_stream_absent [OF prepare_kwargs_no_stream [OF prep] this] show False
      by simp
  qed
  have eq: "create_message rt cfg cl data = generate rt cfg cl content d kwargs"
    using prep ts by (rule body_streaming)
  have call': "call_create_message cl content (dict_get d ''system'' JNull) True kwargs
             = Inr (MessagesStream kw)"
    using call ts by simp
  show ?thesis
    unfolding eq generate_complete [OF call' assms(2)] Let_def sse_event_def block_start_def
      block_stop_def message_delta_def message_stop_def
    by simp
qed


lemmas handler_eval =
  create_message_def create_message_body_def prepare_def generate_def
  call_create_message_def VertexClaudeClient_create_message_def
  resolve_model_def SUPPORTED_MODELS_def normalize_content_def dict_get_def
  restrict_map_def map_add_def Let_def error_body_def
  render_message_def opt_str_def opt_int_def

lemmas stub_eval =
  stub_runtime_def failing_runtime_def default_config_def claude_client_def
  haiku_request_def streaming_request_def user_message_def fixed_message_def

text \<open>
  The round trip of the specification: the fragments \<open>Hel\<close>, \<open>lo\<close> give the two deltas and
  the accumulated text \<open>Hello\<close>.
\<close>

theorem streaming_event_sequence_witness:
  "fst (create_message stub_runtime default_config (claude_client default_config)
          streaming_request) =
     EventStream
       [sse_event stub_dumps ''message_start'' (message_start default_config ''msg_1700000000000''),
        sse_event stub_dumps ''content_block_start'' block_start,
        sse_event stub_dumps ''content_block_delta''
          (JObj [(''type'', JStr ''content_block_delta''), (''index'', JInt 0),
                 (''delta'', JObj [(''type'', JStr ''text_delta''), (''text'', JStr ''Hel'')])]),
        sse_event stub_dumps ''content_block_delta''
          (JObj [(''type'', JStr ''content_block_delta''), (''index'', JInt 0),
                 (''delta'', JObj [(''type'', JStr ''text_delta''), (''text'', JStr ''lo'')])]),
        sse_event stub_dumps ''content_block_stop'' block_stop,
        sse_event stub_dumps ''message_delta'' (message_delta ''Hello''),
        sse_event stub_dumps ''message_stop'' message_stop]
       None"
proof -
  have "\<exists>kw. snd (create_message stub_runtime default_config (claude_client default_config)
          streaming_request) = [MessagesStream kw]"
    by (simp add: handler_eval stub_eval)
  then obtain kw where calls:
    "snd (create_message stub_runtime default_config (claude_client default_config)
          streaming_request) = [MessagesStream kw]" ..
  have frags: "messages_stream stub_runtime kw = ([''Hel'', ''lo''], None)"
    by (simp add: stub_runtime_def)
  have ms: "time_ms stub_runtime = 1700000000000" "json_dumps stub_runtime = stub_dumps"
    by (simp_all add: stub_runtime_def)
  have id: "str_int 1700000000000 = ''1700000000000''"
    by (simp add: str_int_def str_nat.simps digit_char_def)
  show ?thesis
    unfolding streaming_event_sequence [OF calls frags] ms id
    by (simp add: Let_def sse_event_def block_start_def block_stop_def message_delta_def
        message_stop_def)
qed

section \<open>Facts about the normalisation\<close>

lemma str_join_single_space: "str_join '' '' ts = single_space_join ts"
  by (induction ts rule: induct_list012) simp_all

lemma as_strings_JStr: "as_strings (map JStr ts) = Inr ts"
  by (induction ts) simp_all

lemma typed_part_cases:
  assumes "typed_part p"
  obtains kv t where "p = JObj kv" "map_of kv ''type'' = Some (JStr ''text'')"
      "map_of kv ''text'' = Some (JStr t)" "is_text_part p" "part_text p = Some t"
  | kv where "p = JObj kv" "map_of kv ''type'' \<noteq> Some (JStr ''text'')" "\<not> is_text_part p"
  using assms
  by (auto simp: typed_part_def is_text_part_def part_text_def
      split: json.splits option.splits)

lemma text_items_typed:
  "\<forall>p \<in> set parts. typed_part p \<Longrightarrow> text_items parts = Inr (map JStr (texts_of_text_parts parts))"
proof (induction parts)
  case Nil
  then show ?case by (simp add: texts_of_text_parts_def map_filter_simps)
next
  case (Cons p parts)
  then have ih: "text_items parts = Inr (map JStr (texts_of_text_parts parts))"
    and tp: "typed_part p" by simp_all
  from tp show ?case
  proof (cases rule: typed_part_cases)
    case (1 kv t)
    with ih show ?thesis
      by (simp add: texts_of_text_parts_def map_filter_simps dict_get_def)
  next
    case (2 kv)
    with ih show ?thesis
      by (auto simp: texts_of_text_parts_def map_filter_simps dict_get_def split: option.splits)
  qed
qed

lemma normalize_content_string:
  "map_of fm ''content'' = Some (JStr s) \<Longrightarrow> normalize_content (JObj fm) = Inr (Some s)"
  by (simp add: normalize_content_def dict_get_def)

lemma normalize_content_parts:
  assumes "map_of fm ''content'' = Some (JArr parts)" and "\<forall>p \<in> set parts. typed_part p"
  shows "normalize_content (JObj fm) = Inr (Some (single_space_join (texts_of_text_parts parts)))"
  using assms(1) text_items_typed [OF assms(2)]
  by (simp add: normalize_content_def dict_get_def as_strings_JStr str_join_single_space)

lemma prepare_first_message:
  assumes "prepare cfg (JObj kvs) = Inr (Proceed stream content d kwargs)"
      and "map_of kvs ''messages'' = Some (JArr (first_message # history))"
  shows "normalize_content first_message = Inr (Some content)"
  using prepare_Proceed [OF assms(1)] assms(2)
  by (auto simp: dict_get_def)

section \<open>Model aliases\<close>

text \<open>
  Claim C3, as amended. For every request whose \<open>model\<close> field is absent or is a value
  that can be looked up in the alias table (a string, a number, a boolean or \<^verbatim>\<open>None\<close>),
  alias resolution raises nothing and gives what the static table gives: the primary or
  the secondary identifier for the four legacy aliases, the primary identifier for every
  other value and for an absent field. The request proceeds with it: when the first
  message has a string content and the client call accepts the body, the handler calls
  the provider exactly once, with the resolved identifier as \<open>model\<close>, and answers 200
  when that call returns a message.
\<close>

theorem model_alias_resolution:
  assumes "hashable (dict_get (map_of kvs) ''model'' JNull)"
  shows "resolve_model cfg (dict_get (map_of kvs) ''model'' JNull)
           = Inr (spec_upstream_identifier cfg (dict_get (map_of kvs) ''model'' JNull)) \<and>
         (map_of kvs ''messages'' = Some (JArr (JObj fm # history)) \<and>
          map_of fm ''content'' = Some (JStr s) \<and> callable_body kvs \<longrightarrow>
            (\<exists>c. snd (create_message rt cfg cl (JObj kvs)) = [c] \<and>
                 call_param ''model'' c
                   = Some (JStr (spec_upstream_identifier cfg
                                   (dict_get (map_of kvs) ''model'' JNull))) \<and>
                 call_param ''messages'' c
                   = Some (JArr [JObj [(''role'', JStr ''user''), (''content'', JStr s)]]) \<and>
                 (\<forall>m body. messages_create rt (call_params c) = Inr m \<and>
                     render_message m = Inr body \<and> \<not> is_stream_call c
                   \<longrightarrow> fst (create_message rt cfg cl (JObj kvs)) = JsonResponse 200 body)))"
proof (intro conjI impI)
  from assms show "resolve_model cfg (dict_get (map_of kvs) ''model'' JNull)
           = Inr (spec_upstream_identifier cfg (dict_get (map_of kvs) ''model'' JNull))"
    by (rule resolve_model_table)
next
  assume req: "map_of kvs ''messages'' = Some (JArr (JObj fm # history)) \<and>
          map_of fm ''content'' = Some (JStr s) \<and> callable_body kvs"
  then have msgs: "map_of kvs ''messages'' = Some (JArr (JObj fm # history))"
    and norm: "normalize_content (JObj fm) = Inr (Some s)" and body: "callable_body kvs"
    by (simp_all add: normalize_content_string)
  from handler_calls_once [OF msgs assms norm body, of rt cfg cl]
  obtain c where c: "snd (create_message rt cfg cl (JObj kvs)) = [c]"
    and params: "call_param ''model'' c
        = Some (JStr (spec_upstream_identifier cfg (dict_get (map_of kvs) ''model'' JNull)))"
      "call_param ''messages'' c
        = Some (JArr [JObj [(''role'', JStr ''user''), (''content'', JStr s)]])"
    by blast
  have "fst (create_message rt cfg cl (JObj kvs)) = JsonResponse 200 body"
    if "messages_create rt (call_params c) = Inr m" "render_message m = Inr body"
      "\<not> is_stream_call c" for m body
  proof -
    from that(3) obtain kw where kw: "c = MessagesCreate kw" by (cases c) simp_all
    with c that(1,2) answer_after_create [of rt cfg cl "JObj kvs" kw] show ?thesis
      by simp
  qed
  with c params
  show "\<exists>c. snd (create_message rt cfg cl (JObj kvs)) = [c] \<and>
                 call_param ''model'' c
                   = Some (JStr (spec_upstream_identifier cfg
                                   (dict_get (map_of kvs) ''model'' JNull))) \<and>
                 call_param ''messages'' c
                   = Some (JArr [JObj [(''role'', JStr ''user''), (''content'', JStr s)]]) \<and>
                 (\<forall>m body. messages_create rt (call_params c) = Inr m \<and>
                     render_message m = Inr body \<and> \<not> is_stream_call c
                   \<longrightarrow> fst (create_message rt cfg cl (JObj kvs)) = JsonResponse 200 body)"
    by blast
qed

theorem model_alias_resolution_witness:
  "map (call_param ''model'')
     (snd (create_message stub_runtime default_config (claude_client default_config)
        (JObj [(''model'', JStr ''claude-3-5-haiku-20241022''),
               (''messages'', JArr [JObj [(''role'', JStr ''user''), (''content'', JStr ''hi'')]])])))
     = [Some (JStr ''claude-3-5-haiku@20241022'')] \<and>
   map (call_param ''model'')
     (snd (create_message stub_runtime default_config (claude_client default_config)
        (JObj [(''model'', JStr ''gpt-4''),
               (''messages'', JArr [JObj [(''role'', JStr ''user''), (''content'', JStr ''hi'')]])])))
     = [Some (JStr ''claude-3-7-sonnet@20250219'')] \<and>
   map (call_param ''model'')
     (snd (create_message stub_runtime default_config (claude_client default_config)
        (JObj [(''messages'', JArr [JObj [(''role'', JStr ''user''), (''content'', JStr ''hi'')]])])))
     = [Some (JStr ''claude-3-7-sonnet@20250219'')] \<and>
   resolve_model default_config (JStr ''claude-3-5-haiku-20241022'')
     = Inr ''claude-3-5-haiku@20241022''"
proof -
  let ?fm = "[(''role'', JStr ''user''), (''content'', JStr ''hi'')]"
  let ?haiku = "[(''model'', JStr ''claude-3-5-haiku-20241022''), (''messages'', JArr [JObj ?fm])]"
  let ?other = "[(''model'', JStr ''gpt-4''), (''messages'', JArr [JObj ?fm])]"
  let ?absent = "[(''messages'', JArr [JObj ?fm])]"
  have content: "map_of ?fm ''content'' = Some (JStr ''hi'')" by simp
  have h1: "hashable (dict_get (map_of ?haiku) ''model'' JNull)"
    and h2: "hashable (dict_get (map_of ?other) ''model'' JNull)"
    and h3: "hashable (dict_get (map_of ?absent) ''model'' JNull)"
    by (simp_all add: dict_get_def)
  have r1: "map_of ?haiku ''messages'' = Some (JArr (JObj ?fm # [])) \<and>
      map_of ?fm ''content'' = Some (JStr ''hi'') \<and> callable_body ?haiku"
    and r2: "map_of ?other ''messages'' = Some (JArr (JObj ?fm # [])) \<and>
      map_of ?fm ''content'' = Some (JStr ''hi'') \<and> callable_body ?other"
    and r3: "map_of ?absent ''messages'' = Some (JArr (JObj ?fm # [])) \<and>
      map_of ?fm ''content'' = Some (JStr ''hi'') \<and> callable_body ?absent"
    by (simp_all add: callable_body_def dict_get_def)
  have ids: "spec_upstream_identifier default_config (dict_get (map_of ?haiku) ''model'' JNull)
      = ''claude-3-5-haiku@20241022''"
    "spec_upstream_identifier default_config (dict_get (map_of ?other) ''model'' JNull)
      = ''claude-3-7-sonnet@20250219''"
    "spec_upstream_identifier default_config (dict_get (map_of ?absent) ''model'' JNull)
      = ''claude-3-7-sonnet@20250219''"
    by (simp_all add: spec_upstream_identifier_def default_config_def dict_get_def)
  note t1 = model_alias_resolution [OF h1, of default_config ?fm "[]" "''hi''" stub_runtime
      "claude_client default_config"]
  note t2 = model_alias_resolution [OF h2, of default_config ?fm "[]" "''hi''" stub_runtime
      "claude_client default_config"]
  note t3 = model_alias_resolution [OF h3, of default_config ?fm "[]" "''hi''" stub_runtime
      "claude_client default_config"]
  from t1 r1 have "map (call_param ''model'')
     (snd (create_message stub_runtime default_config (claude_client default_config) (JObj ?haiku)))
     = [Some (JStr ''claude-3-5-haiku@20241022'')]"
    unfolding ids by auto
  moreover from t2 r2 have "map (call_param ''model'')
     (snd (create_message stub_runtime default_config (claude_client default_config) (JObj ?other)))
     = [Some (JStr ''claude-3-7-sonnet@20250219'')]"
    unfolding ids by auto
  moreover from t3 r3 have "map (call_param ''model'')
     (snd (create_message stub_runtime default_config (claude_client default_config) (JObj ?absent)))
     = [Some (JStr ''claude-3-7-sonnet@20250219'')]"
    unfolding ids by auto
  moreover from t1 have "resolve_model default_config (JStr ''claude-3-5-haiku-20241022'')
     = Inr ''claude-3-5-haiku@20241022''"
    unfolding ids by (simp add: dict_get_def)
  ultimately show ?thesis by simp
qed

text \<open>
  The claim as stated has every value of the field resolved without an error. The lookup
  \<^verbatim>\<open>requested_model in SUPPORTED_MODELS\<close> hashes the value: a \<open>model\<close> field that is a
  list (or an object) makes it raise, and the request is answered with status 500.
\<close>

theorem unhashable_model_counterexample:
  "resolve_model default_config (JArr [JStr ''claude-3-haiku-20240307'']) = Inl TypeError \<and>
   create_message stub_runtime default_config (claude_client default_config)
     (JObj [(''model'', JArr [JStr ''claude-3-haiku-20240307'']),
            (''messages'', JArr [user_message (JStr ''hi'')])])
   = (JsonResponse 500 (JObj [(''error'', JStr (stub_exn_str TypeError))]), [])"
  by (simp add: handler_eval stub_eval)

section \<open>The forwarded prompt\<close>

text \<open>
  Claim C5. If the first message's content is a plain string, the prompt is that string.
  If it is a list of typed parts, the prompt is the texts of exactly the parts tagged
  "text", in order, with a single space between consecutive texts; the other parts are
  dropped. The prompt is forwarded: a request whose \<open>model\<close> field can be looked up and
  whose body the client call accepts makes exactly one SDK call, and that call carries the
  prompt as the content of its single user message; and whatever the request, every SDK
  call it makes carries the prompt so.
\<close>

theorem forwarded_prompt:
  "(map_of fm ''content'' = Some (JStr s) \<longrightarrow> normalize_content (JObj fm) = Inr (Some s)) \<and>
   (map_of fm ''content'' = Some (JArr parts) \<and> (\<forall>p \<in> set parts. typed_part p) \<longrightarrow>
      normalize_content (JObj fm) = Inr (Some (single_space_join (texts_of_text_parts parts)))) \<and>
   (map_of kvs ''messages'' = Some (JArr (JObj fm # history)) \<and>
    hashable (dict_get (map_of kvs) ''model'' JNull) \<and> callable_body kvs \<and>
    map_of fm ''content'' = Some (JStr s) \<longrightarrow>
      (\<exists>c. snd (create_message rt cfg cl (JObj kvs)) = [c] \<and>
           call_param ''messages'' c
             = Some (JArr [JObj [(''role'', JStr ''user''), (''content'', JStr s)]]))) \<and>
   (map_of kvs ''messages'' = Some (JArr (JObj fm # history)) \<and>
    hashable (dict_get (map_of kvs) ''model'' JNull) \<and> callable_body kvs \<and>
    map_of fm ''content'' = Some (JArr parts) \<and> (\<forall>p \<in> set parts. typed_part p) \<longrightarrow>
      (\<exists>c. snd (create_message rt cfg cl (JObj kvs)) = [c] \<and>
           call_param ''messages'' c
             = Some (JArr [JObj [(''role'', JStr ''user''),
                                 (''content'',
                                  JStr (single_space_join (texts_of_text_parts parts)))]]))) \<and>
   (map_of kvs ''messages'' = Some (JArr (JObj fm # history)) \<longrightarrow>
      (\<forall>c \<in> set (snd (create_message rt cfg cl (JObj kvs))).
         \<exists>prompt. normalize_content (JObj fm) = Inr (Some prompt) \<and>
           call_param ''messages'' c
             = Some (JArr [JObj [(''role'', JStr ''user''), (''content'', JStr prompt)]])))"
proof (intro conjI impI ballI)
  assume "map_of fm ''content'' = Some (JStr s)"
  then show "normalize_content (JObj fm) = Inr (Some s)" by (rule normalize_content_string)
next
  assume "map_of fm ''content'' = Some (JArr parts) \<and> (\<forall>p \<in> set parts. typed_part p)"
  then show "normalize_content (JObj fm) = Inr (Some (single_space_join (texts_of_text_parts parts)))"
    by (simp add: normalize_content_parts)
next
  assume req: "map_of kvs ''messages'' = Some (JArr (JObj fm # history)) \<and>
    hashable (dict_get (map_of kvs) ''model'' JNull) \<and> callable_body kvs \<and>
    map_of fm ''content'' = Some (JStr s)"
  then have "normalize_content (JObj fm) = Inr (Some s)"
    by (simp add: normalize_content_string)
  with req handler_calls_once [of kvs "JObj fm" history s rt cfg cl]
  show "\<exists>c. snd (create_message rt cfg cl (JObj kvs)) = [c] \<and>
           call_param ''messages'' c
             = Some (JArr [JObj [(''role'', JStr ''user''), (''content'', JStr s)]])"
    by blast
next
  assume req: "map_of kvs ''messages'' = Some (JArr (JObj fm # history)) \<and>
    hashable (dict_get (map_of kvs) ''model'' JNull) \<and> callable_body kvs \<and>
    map_of fm ''content'' = Some (JArr parts) \<and> (\<forall>p \<in> set parts. typed_part p)"
  then have "normalize_content (JObj fm)
      = Inr (Some (single_space_join (texts_of_text_parts parts)))"
    by (simp add: normalize_content_parts)
  with req handler_calls_once [of kvs "JObj fm" history
      "single_space_join (texts_of_text_parts parts)" rt cfg cl]
  show "\<exists>c. snd (create_message rt cfg cl (JObj kvs)) = [c] \<and>
           call_param ''messages'' c
             = Some (JArr [JObj [(''role'', JStr ''user''),
                                 (''content'',
                                  JStr (single_space_join (texts_of_text_parts parts)))]])"
    by blast
next
  fix c
  assume msgs: "map_of kvs ''messages'' = Some (JArr (JObj fm # history))"
    and c: "c \<in> set (snd (create_message rt cfg cl (JObj kvs)))"
  from create_message_calls [of rt cfg cl "JObj kvs"] c
  obtain stream content d kwargs where
    prep: "prepare cfg (JObj kvs) = Inr (Proceed stream content d kwargs)" and
    call: "call_create_message cl content (dict_get d ''system'' JNull) (truthy stream) kwargs = Inr c"
    by auto
  from prepare_first_message [OF prep msgs] call_messages_param [OF call]
  show "\<exists>prompt. normalize_content (JObj fm) = Inr (Some prompt) \<and>
           call_param ''messages'' c
             = Some (JArr [JObj [(''role'', JStr ''user''), (''content'', JStr prompt)]])"
    by (simp add: call_param_def)
qed

text \<open>
  The examples of the specification, run through the handler: a text part \<open>hello\<close> beside
  a part of another type is forwarded as \<open>hello\<close>, the text parts \<open>a\<close>, \<open>b\<close> as \<open>a b\<close>.
\<close>

theorem forwarded_prompt_witness:
  "map (call_param ''messages'')
     (snd (create_message stub_runtime default_config (claude_client default_config)
        (JObj [(''messages'', JArr [JObj [(''role'', JStr ''user''), (''content'', JArr
            [JObj [(''type'', JStr ''text''), (''text'', JStr ''hello'')],
             JObj [(''type'', JStr ''image''), (''source'', JNull)]])]])])))
     = [Some (JArr [JObj [(''role'', JStr ''user''), (''content'', JStr ''hello'')]])] \<and>
   map (call_param ''messages'')
     (snd (create_message stub_runtime default_config (claude_client default_config)
        (JObj [(''messages'', JArr [JObj [(''role'', JStr ''user''), (''content'', JArr
            [JObj [(''type'', JStr ''text''), (''text'', JStr ''a'')],
             JObj [(''type'', JStr ''text''), (''text'', JStr ''b'')]])]])])))
     = [Some (JArr [JObj [(''role'', JStr ''user''), (''content'', JStr ''a b'')]])] \<and>
   map (call_param ''messages'')
     (snd (create_message stub_runtime default_config (claude_client default_config)
        (JObj [(''messages'', JArr [JObj [(''role'', JStr ''user''),
                                          (''content'', JStr ''hi'')]])])))
     = [Some (JArr [JObj [(''role'', JStr ''user''), (''content'', JStr ''hi'')]])] \<and>
   normalize_content (JObj [(''role'', JStr ''user''), (''content'', JArr
            [JObj [(''type'', JStr ''text''), (''text'', JStr ''a'')],
             JObj [(''type'', JStr ''text''), (''text'', JStr ''b'')]])]) = Inr (Some ''a b'')"
proof -
  let ?hello = "[JObj [(''type'', JStr ''text''), (''text'', JStr ''hello'')],
       JObj [(''type'', JStr ''image''), (''source'', JNull)]]"
  let ?ab = "[JObj [(''type'', JStr ''text''), (''text'', JStr ''a'')],
       JObj [(''type'', JStr ''text''), (''text'', JStr ''b'')]]"
  let ?fh = "[(''role'', JStr ''user''), (''content'', JArr ?hello)]"
  let ?fa = "[(''role'', JStr ''user''), (''content'', JArr ?ab)]"
  let ?fs = "[(''role'', JStr ''user''), (''content'', JStr ''hi'')]"
  have typed: "\<forall>p \<in> set ?hello. typed_part p" "\<forall>p \<in> set ?ab. typed_part p"
    by (simp_all add: typed_part_def is_text_part_def part_text_def)
  have texts: "single_space_join (texts_of_text_parts ?hello) = ''hello''"
    "single_space_join (texts_of_text_parts ?ab) = ''a b''"
    by (simp_all add: texts_of_text_parts_def map_filter_simps is_text_part_def part_text_def)
  have req: "map_of [(''messages'', JArr [JObj fm])] ''messages'' = Some (JArr (JObj fm # []))"
    "hashable (dict_get (map_of [(''messages'', JArr [JObj fm])]) ''model'' JNull)"
    "callable_body [(''messages'', JArr [JObj fm])]" for fm
    by (simp_all add: callable_body_def dict_get_def)
  note th = forwarded_prompt [where kvs = "[(''messages'', JArr [JObj ?fh])]" and fm = ?fh
      and parts = ?hello and history = "[]" and rt = stub_runtime and cfg = default_config
      and cl = "claude_client default_config"]
  note ta = forwarded_prompt [where kvs = "[(''messages'', JArr [JObj ?fa])]" and fm = ?fa
      and parts = ?ab and history = "[]" and rt = stub_runtime and cfg = default_config
      and cl = "claude_client default_config"]
  note ts = forwarded_prompt [where kvs = "[(''messages'', JArr [JObj ?fs])]" and fm = ?fs
      and s = "''hi''" and history = "[]" and rt = stub_runtime and cfg = default_config
      and cl = "claude_client default_config"]
  from th req [of ?fh] typed(1) have "map (call_param ''messages'')
     (snd (create_message stub_runtime default_config (claude_client default_config)
        (JObj [(''messages'', JArr [JObj ?fh])])))
     = [Some (JArr [JObj [(''role'', JStr ''user''), (''content'', JStr ''hello'')]])]"
    unfolding texts by auto
  moreover from ta req [of ?fa] typed(2) have "map (call_param ''messages'')
     (snd (create_message stub_runtime default_config (claude_client default_config)
        (JObj [(''messages'', JArr [JObj ?fa])])))
     = [Some (JArr [JObj [(''role'', JStr ''user''), (''content'', JStr ''a b'')]])]"
    unfolding texts by auto
  moreover from ts req [of ?fs] have "map (call_param ''messages'')
     (snd (create_message stub_runtime default_config (claude_client default_config)
        (JObj [(''messages'', JArr [JObj ?fs])])))
     = [Some (JArr [JObj [(''role'', JStr ''user''), (''content'', JStr ''hi'')]])]"
    by auto
  moreover from ta typed(2) have "normalize_content (JObj ?fa) = Inr (Some ''a b'')"
    unfolding texts by simp
  ultimately show ?thesis by simp
qed

section \<open>Malformed text parts\<close>

lemma text_items_raises:
  assumes "JObj part \<in> set parts" and "map_of part ''type'' = Some (JStr ''text'')"
      and "map_of part ''text'' = None"
  shows "\<exists>e. text_items parts = Inl e"
  using assms(1)
proof (induction parts)
  case Nil
  then show ?case by simp
next
  case (Cons p parts)
  show ?case
  proof (cases "p = JObj part")
    case True
    with assms(2,3) show ?thesis by (simp add: dict_get_def)
  next
    case False
    with Cons obtain e where "text_items parts = Inl e" by auto
    then show ?thesis
      by (cases "py_get p ''type''"; cases "py_getitem p ''text''") simp_all
  qed
qed

lemma text_items_untagged:
  "\<forall>p \<in> set parts. \<exists>kv. p = JObj kv \<and> map_of kv ''type'' \<noteq> Some (JStr ''text'')
    \<Longrightarrow> text_items parts = Inr []"
  by (induction parts) (auto simp: dict_get_def split: option.splits)

lemma prepare_normalize_raises:
  assumes "map_of kvs ''messages'' = Some (JArr (first_message # history))"
      and "normalize_content first_message = Inl e"
  shows "\<exists>e'. prepare cfg (JObj kvs) = Inl e'"
proof -
  from assms(1) have "kvs \<noteq> []" by auto
  with assms show ?thesis
    by (cases "resolve_model cfg (dict_get (map_of kvs) ''model'' JNull)")
      (simp_all add: prepare_def Let_def dict_get_def)
qed

text \<open>
  Claim C10. Let the first message's content be a list. If the list contains a part tagged
  "text" that has no \<open>text\<close> field, normalisation raises an exception and the request is
  answered with status 500 and a body \<open>{"error": ...}\<close>, not with a 400, and the provider is
  not called. If every element of the list is a part that is not tagged "text", the
  prompt is the empty string and normalisation raises nothing; the request then proceeds:
  when its \<open>model\<close> field can be looked up and the client call accepts its body, the
  handler calls the provider exactly once, with the empty prompt, and a non-streaming
  request is answered 200 when that call returns a message.
\<close>

theorem text_part_without_text:
  assumes "map_of fm ''content'' = Some (JArr parts)"
  shows "(JObj part \<in> set parts \<and> map_of part ''type'' = Some (JStr ''text'')
            \<and> map_of part ''text'' = None \<longrightarrow>
          (\<exists>e. normalize_content (JObj fm) = Inl e) \<and>
          (map_of kvs ''messages'' = Some (JArr (JObj fm # history)) \<longrightarrow>
             (\<exists>e. create_message rt cfg cl (JObj kvs)
                     = (JsonResponse 500 (JObj [(''error'', JStr (exn_str rt e))]), [])))) \<and>
         ((\<forall>p \<in> set parts. \<exists>kv. p = JObj kv \<and> map_of kv ''type'' \<noteq> Some (JStr ''text'')) \<longrightarrow>
          normalize_content (JObj fm) = Inr (Some []) \<and>
          (map_of kvs ''messages'' = Some (JArr (JObj fm # history)) \<and>
           hashable (dict_get (map_of kvs) ''model'' JNull) \<longrightarrow>
             (\<exists>stream d kwargs. prepare cfg (JObj kvs) = Inr (Proceed stream [] d kwargs))) \<and>
          (map_of kvs ''messages'' = Some (JArr (JObj fm # history)) \<and>
           hashable (dict_get (map_of kvs) ''model'' JNull) \<and> callable_body kvs \<longrightarrow>
             (\<exists>c. snd (create_message rt cfg cl (JObj kvs)) = [c] \<and>
                  call_param ''messages'' c
                    = Some (JArr [JObj [(''role'', JStr ''user''), (''content'', JStr [])]]) \<and>
                  (\<forall>m body. \<not> truthy (dict_get (map_of kvs) ''stream'' (JBool False)) \<and>
                      messages_create rt (call_params c) = Inr m \<and>
                      render_message m = Inr body
                    \<longrightarrow> fst (create_message rt cfg cl (JObj kvs)) = JsonResponse 200 body))))"
proof (intro conjI impI)
  assume bad: "JObj part \<in> set parts \<and> map_of part ''type'' = Some (JStr ''text'')
            \<and> map_of part ''text'' = None"
  then obtain e where "text_items parts = Inl e"
    using text_items_raises by blast
  with assms have raised: "normalize_content (JObj fm) = Inl e"
    by (simp add: normalize_content_def dict_get_def)
  then show "\<exists>e. normalize_content (JObj fm) = Inl e" ..
  assume "map_of kvs ''messages'' = Some (JArr (JObj fm # history))"
  from prepare_normalize_raises [OF this raised]
  obtain e' where "prepare cfg (JObj kvs) = Inl e'" ..
  from create_message_prepare_raises [OF this]
  show "\<exists>e. create_message rt cfg cl (JObj kvs)
                     = (JsonResponse 500 (JObj [(''error'', JStr (exn_str rt e))]), [])"
    by (auto simp: error_body_def)
next
  assume untagged:
    "\<forall>p \<in> set parts. \<exists>kv. p = JObj kv \<and> map_of kv ''type'' \<noteq> Some (JStr ''text'')"
  from text_items_untagged [OF this] assms
  show empty: "normalize_content (JObj fm) = Inr (Some [])"
    by (simp add: normalize_content_def dict_get_def)
  {
    assume req: "map_of kvs ''messages'' = Some (JArr (JObj fm # history)) \<and>
           hashable (dict_get (map_of kvs) ''model'' JNull)"
    then have "kvs \<noteq> []" by auto
    moreover from req obtain upstream_id where
      "resolve_model cfg (dict_get (map_of kvs) ''model'' JNull) = Inr upstream_id"
      using resolve_model_hashable by blast
    ultimately show "\<exists>stream d kwargs. prepare cfg (JObj kvs) = Inr (Proceed stream [] d kwargs)"
      using req empty by (simp add: prepare_def Let_def dict_get_def)
  }
  assume req: "map_of kvs ''messages'' = Some (JArr (JObj fm # history)) \<and>
           hashable (dict_get (map_of kvs) ''model'' JNull) \<and> callable_body kvs"
  with empty handler_calls_once [of kvs "JObj fm" history "[]" rt cfg cl]
  obtain c where c: "snd (create_message rt cfg cl (JObj kvs)) = [c]"
    and msg: "call_param ''messages'' c
        = Some (JArr [JObj [(''role'', JStr ''user''), (''content'', JStr [])]])"
    and strm: "is_stream_call c = truthy (dict_get (map_of kvs) ''stream'' (JBool False))"
    by blast
  have "fst (create_message rt cfg cl (JObj kvs)) = JsonResponse 200 body"
    if "\<not> truthy (dict_get (map_of kvs) ''stream'' (JBool False))"
      "messages_create rt (call_params c) = Inr m" "render_message m = Inr body" for m body
  proof -
    from that(1) strm obtain kw where "c = MessagesCreate kw" by (cases c) simp_all
    with c that(2,3) answer_after_create [of rt cfg cl "JObj kvs" kw] show ?thesis
      by simp
  qed
  with c msg
  show "\<exists>c. snd (create_message rt cfg cl (JObj kvs)) = [c] \<and>
                  call_param ''messages'' c
                    = Some (JArr [JObj [(''role'', JStr ''user''), (''content'', JStr [])]]) \<and>
                  (\<forall>m body. \<not> truthy (dict_get (map_of kvs) ''stream'' (JBool False)) \<and>
                      messages_create rt (call_params c) = Inr m \<and>
                      render_message m = Inr body
                    \<longrightarrow> fst (create_message rt cfg cl (JObj kvs)) = JsonResponse 200 body)"
    by blast
qed

theorem text_part_without_text_witness:
  "(\<exists>e. normalize_content
          (JObj [(''role'', JStr ''user''), (''content'', JArr [JObj [(''type'', JStr ''text'')]])])
        = Inl e) \<and>
   (\<exists>e. create_message stub_runtime default_config (claude_client default_config)
           (JObj [(''messages'', JArr [JObj [(''role'', JStr ''user''),
                      (''content'', JArr [JObj [(''type'', JStr ''text'')]])]])])
         = (JsonResponse 500 (JObj [(''error'', JStr (stub_exn_str e))]), [])) \<and>
   map (call_param ''messages'')
     (snd (create_message stub_runtime default_config (claude_client default_config)
           (JObj [(''messages'', JArr [JObj [(''role'', JStr ''user''),
                      (''content'', JArr [JObj [(''type'', JStr ''image'')]])]])])))
     = [Some (JArr [JObj [(''role'', JStr ''user''), (''content'', JStr [])]])] \<and>
   status_code (fst (create_message stub_runtime default_config (claude_client default_config)
           (JObj [(''messages'', JArr [JObj [(''role'', JStr ''user''),
                      (''content'', JArr [JObj [(''type'', JStr ''image'')]])]])]))) = 200"
proof -
  let ?bad = "[(''role'', JStr ''user''), (''content'', JArr [JObj [(''type'', JStr ''text'')]])]"
  let ?img = "[(''role'', JStr ''user''), (''content'', JArr [JObj [(''type'', JStr ''image'')]])]"
  let ?kb = "[(''messages'', JArr [JObj ?bad])]"
  let ?ki = "[(''messages'', JArr [JObj ?img])]"
  have str: "exn_str stub_runtime = stub_exn_str"
    by (simp add: stub_runtime_def)
  have bad: "map_of ?bad ''content'' = Some (JArr [JObj [(''type'', JStr ''text'')]])"
    by simp
  have img: "map_of ?img ''content'' = Some (JArr [JObj [(''type'', JStr ''image'')]])"
    by simp
  note raised = text_part_without_text [OF bad, where part = "[(''type'', JStr ''text'')]"
      and kvs = ?kb and history = "[]"
      and rt = stub_runtime and cfg = default_config and cl = "claude_client default_config"]
  note empty = text_part_without_text [OF img, where part = "[]"
      and kvs = ?ki and history = "[]"
      and rt = stub_runtime and cfg = default_config and cl = "claude_client default_config"]
  from raised have p1: "\<exists>e. normalize_content (JObj ?bad) = Inl e"
    by simp
  from raised have p2:
    "\<exists>e. create_message stub_runtime default_config (claude_client default_config) (JObj ?kb)
         = (JsonResponse 500 (JObj [(''error'', JStr (stub_exn_str e))]), [])"
    by (simp add: str)
  have untagged: "\<forall>p \<in> set [JObj [(''type'', JStr ''image'')]].
      \<exists>kv. p = JObj kv \<and> map_of kv ''type'' \<noteq> Some (JStr ''text'')"
    by simp
  have req: "map_of ?ki ''messages'' = Some (JArr (JObj ?img # [])) \<and>
      hashable (dict_get (map_of ?ki) ''model'' JNull) \<and> callable_body ?ki"
    by (simp add: callable_body_def dict_get_def)
  from empty untagged req obtain c where
    c: "snd (create_message stub_runtime default_config (claude_client default_config) (JObj ?ki))
          = [c]"
    and msg: "call_param ''messages'' c
          = Some (JArr [JObj [(''role'', JStr ''user''), (''content'', JStr [])]])"
    and ok: "\<forall>m body. \<not> truthy (dict_get (map_of ?ki) ''stream'' (JBool False)) \<and>
              messages_create stub_runtime (call_params c) = Inr m \<and> render_message m = Inr body
            \<longrightarrow> fst (create_message stub_runtime default_config (claude_client default_config)
                       (JObj ?ki)) = JsonResponse 200 body"
    by blast
  have "\<not> truthy (dict_get (map_of ?ki) ''stream'' (JBool False))"
    by (simp add: dict_get_def)
  moreover have "messages_create stub_runtime (call_params c) = Inr fixed_message"
    by (simp add: stub_runtime_def)
  moreover obtain body where "render_message fixed_message = Inr body"
    by (simp add: render_message_def fixed_message_def)
  ultimately have "fst (create_message stub_runtime default_config (claude_client default_config)
        (JObj ?ki)) = JsonResponse 200 body"
    using ok by blast
  then have p4: "status_code (fst (create_message stub_runtime default_config
        (claude_client default_config) (JObj ?ki))) = 200"
    by simp
  from c msg have p3: "map (call_param ''messages'')
     (snd (create_message stub_runtime default_config (claude_client default_config) (JObj ?ki)))
     = [Some (JArr [JObj [(''role'', JStr ''user''), (''content'', JStr [])]])]"
    by simp
  from p1 p2 p3 p4 show ?thesis by blast
qed

section \<open>Validation\<close>

lemma prepare_empty_messages:
  assumes "map_of kvs ''messages'' = Some (JArr [])"
  shows "(\<exists>e. prepare cfg (JObj kvs) = Inl e) \<or>
         prepare cfg (JObj kvs) = Inr (Reject (JsonResponse 400 (error_body ''No messages provided'')))"
    and "hashable (dict_get (map_of kvs) ''model'' JNull) \<Longrightarrow>
         prepare cfg (JObj kvs) = Inr (Reject (JsonResponse 400 (error_body ''No messages provided'')))"
proof -
  from assms have ne: "kvs \<noteq> []" by auto
  with assms show "(\<exists>e. prepare cfg (JObj kvs) = Inl e) \<or>
         prepare cfg (JObj kvs) = Inr (Reject (JsonResponse 400 (error_body ''No messages provided'')))"
    by (cases "resolve_model cfg (dict_get (map_of kvs) ''model'' JNull)")
      (simp_all add: prepare_def Let_def dict_get_def)
  assume "hashable (dict_get (map_of kvs) ''model'' JNull)"
  then obtain upstream_id where
    "resolve_model cfg (dict_get (map_of kvs) ''model'' JNull) = Inr upstream_id"
    by (rule resolve_model_hashable)
  with assms ne show
    "prepare cfg (JObj kvs) = Inr (Reject (JsonResponse 400 (error_body ''No messages provided'')))"
    by (simp add: prepare_def Let_def dict_get_def)
qed

text \<open>
  Claim C6, as amended. For every request whose \<open>messages\<close> array is empty, the provider
  is never called, and the handler returns status 400 (with the message
  \<open>No messages provided\<close>) when the \<open>model\<close> field is absent or is a value that can be
  looked up in the alias table: a string, a number, a boolean or \<^verbatim>\<open>None\<close>.
\<close>

theorem empty_messages_rejected:
  assumes "map_of kvs ''messages'' = Some (JArr [])"
  shows "snd (create_message rt cfg cl (JObj kvs)) = [] \<and>
         (hashable (dict_get (map_of kvs) ''model'' JNull) \<longrightarrow>
          fst (create_message rt cfg cl (JObj kvs))
            = JsonResponse 400 (JObj [(''error'', JStr ''No messages provided'')]))"
proof (intro conjI impI)
  from prepare_empty_messages(1) [OF assms, of cfg]
  show "snd (create_message rt cfg cl (JObj kvs)) = []"
    by (auto simp: create_message_prepare_raises create_message_prepare_rejects)
  assume "hashable (dict_get (map_of kvs) ''model'' JNull)"
  from prepare_empty_messages(2) [OF assms this, of cfg]
  show "fst (create_message rt cfg cl (JObj kvs))
            = JsonResponse 400 (JObj [(''error'', JStr ''No messages provided'')])"
    by (simp add: create_message_prepare_rejects error_body_def)
qed

theorem empty_messages_rejected_witness:
  "create_message stub_runtime default_config (claude_client default_config)
     (JObj [(''model'', JStr ''claude-3-haiku-20240307''), (''messages'', JArr [])])
   = (JsonResponse 400 (JObj [(''error'', JStr ''No messages provided'')]), [])"
proof -
  let ?kvs = "[(''model'', JStr ''claude-3-haiku-20240307''), (''messages'', JArr [])]"
  have empty: "map_of ?kvs ''messages'' = Some (JArr [])" by simp
  have typed: "hashable (dict_get (map_of ?kvs) ''model'' JNull)" by (simp add: dict_get_def)
  from empty_messages_rejected [OF empty, of stub_runtime default_config
      "claude_client default_config"] typed
  show ?thesis
    by (simp add: prod_eq_iff)
qed

text \<open>
  The claim as stated answers every request with an empty \<open>messages\<close> array with 400. The
  alias lookup comes before the check of the messages: a \<open>model\<close> field that is a list
  or an object cannot be hashed, the lookup raises and the answer is status 500.
\<close>

theorem empty_messages_unhashable_model_counterexample:
  "create_message stub_runtime default_config (claude_client default_config)
     (JObj [(''model'', JArr []), (''messages'', JArr [])])
   = (JsonResponse 500 (JObj [(''error'', JStr (stub_exn_str TypeError))]), [])"
  by (simp add: handler_eval stub_eval)

text \<open>
  Claim C7, as amended. For every request whose first message is an object whose content
  is neither a string nor a list (it is absent, \<^verbatim>\<open>None\<close>, a number, a boolean or an
  object), and whose \<open>model\<close> field is absent or can be looked up in the alias table, the
  handler returns status 400 with the message \<open>Invalid message content format\<close> and
  does not call the provider.
\<close>

theorem invalid_content_rejected:
  assumes "map_of kvs ''messages'' = Some (JArr (JObj fm # history))"
      and "hashable (dict_get (map_of kvs) ''model'' JNull)"
      and "\<forall>s. map_of fm ''content'' \<noteq> Some (JStr s)"
      and "\<forall>items. map_of fm ''content'' \<noteq> Some (JArr items)"
  shows "create_message rt cfg cl (JObj kvs)
     = (JsonResponse 400 (JObj [(''error'', JStr ''Invalid message content format'')]), [])"
proof -
  from assms(1) have ne: "kvs \<noteq> []" by auto
  from assms(2) obtain upstream_id where
    rm: "resolve_model cfg (dict_get (map_of kvs) ''model'' JNull) = Inr upstream_id"
    by (rule resolve_model_hashable)
  from assms(3,4) have "normalize_content (JObj fm) = Inr None"
    by (auto simp: normalize_content_def dict_get_def split: option.splits json.splits)
  with assms(1) ne rm have "prepare cfg (JObj kvs)
      = Inr (Reject (JsonResponse 400 (error_body ''Invalid message content format'')))"
    by (simp add: prepare_def Let_def dict_get_def)
  then show ?thesis
    by (simp add: create_message_prepare_rejects error_body_def)
qed

theorem invalid_content_rejected_witness:
  "create_message stub_runtime default_config (claude_client default_config)
     (JObj [(''model'', JStr ''claude-3-haiku-20240307''),
            (''messages'', JArr [user_message (JInt 42)])])
   = (JsonResponse 400 (JObj [(''error'', JStr ''Invalid message content format'')]), [])"
proof -
  let ?fm = "[(''role'', JStr ''user''), (''content'', JInt 42)]"
  let ?kvs = "[(''model'', JStr ''claude-3-haiku-20240307''), (''messages'', JArr [JObj ?fm])]"
  have "map_of ?kvs ''messages'' = Some (JArr (JObj ?fm # []))" by simp
  moreover have "hashable (dict_get (map_of ?kvs) ''model'' JNull)" by (simp add: dict_get_def)
  moreover have "\<forall>s. map_of ?fm ''content'' \<noteq> Some (JStr s)" by simp
  moreover have "\<forall>items. map_of ?fm ''content'' \<noteq> Some (JArr items)" by simp
  ultimately show ?thesis
    unfolding user_message_def by (rule invalid_content_rejected)
qed

text \<open>
  The claim as stated fails for a content that is a list, but not a list of typed parts:
  the handler only asks whether the content is a list, and a list of strings makes the
  normalisation raise, which is answered with status 500.
\<close>

theorem invalid_content_list_counterexample:
  "create_message stub_runtime default_config (claude_client default_config)
     (JObj [(''model'', JStr ''claude-3-haiku-20240307''),
            (''messages'', JArr [user_message (JArr [JStr ''hello''])])])
   = (JsonResponse 500 (JObj [(''error'', JStr (stub_exn_str (AttributeError ''get'')))]), [])"
  by (simp add: handler_eval stub_eval)

section \<open>Only the first message is read\<close>

lemma generate_system_only:
  "dict_get d1 ''system'' JNull = dict_get d2 ''system'' JNull
    \<Longrightarrow> generate rt cfg cl content d1 kwargs = generate rt cfg cl content d2 kwargs"
  by (simp add: generate_def)

text \<open>
  Claim C9. Two requests that carry the same first message and agree on every field but
  \<open>messages\<close> (they differ at most in the messages after the first) get the same answer
  and make the same SDK calls, with the same parameters: the later messages have no
  effect, and raise nothing that the request with the first message alone does not raise.
\<close>

theorem later_messages_ignored:
  assumes first1: "map_of kvs1 ''messages'' = Some (JArr (m # history1))"
      and first2: "map_of kvs2 ''messages'' = Some (JArr (m # history2))"
      and others: "\<forall>k. k \<noteq> ''messages'' \<longrightarrow> map_of kvs1 k = map_of kvs2 k"
  shows "create_message rt cfg cl (JObj kvs1) = create_message rt cfg cl (JObj kvs2)"
proof -
  from first1 first2 have ne: "kvs1 \<noteq> []" "kvs2 \<noteq> []" by auto
  from others have model: "dict_get (map_of kvs1) ''model'' JNull = dict_get (map_of kvs2) ''model'' JNull"
    by (simp add: dict_get_def)
  show ?thesis
  proof (cases "resolve_model cfg (dict_get (map_of kvs1) ''model'' JNull)")
    case (Inl e)
    with model ne have "prepare cfg (JObj kvs1) = Inl e" "prepare cfg (JObj kvs2) = Inl e"
      by (simp_all add: prepare_def)
    then show ?thesis by (simp add: create_message_prepare_raises)
  next
    case (Inr upstream_id)
    define d1 where "d1 = (map_of kvs1)(''model'' \<mapsto> JStr upstream_id)"
    define d2 where "d2 = (map_of kvs2)(''model'' \<mapsto> JStr upstream_id)"
    define kwargs where "kwargs = d2 |` (- {''messages'', ''system'', ''stream''})"
    have kw: "d1 |` (- {''messages'', ''system'', ''stream''}) = kwargs"
      unfolding kwargs_def d1_def d2_def using others by (auto simp: restrict_map_def)
    have sys: "dict_get d1 ''system'' JNull = dict_get d2 ''system'' JNull"
      and strm: "dict_get d1 ''stream'' (JBool False) = dict_get d2 ''stream'' (JBool False)"
      unfolding d1_def d2_def using others by (simp_all add: dict_get_def)
    have msgs: "dict_get d1 ''messages'' (JArr []) = JArr (m # history1)"
      "dict_get d2 ''messages'' (JArr []) = JArr (m # history2)"
      unfolding d1_def d2_def using first1 first2 by (simp_all add: dict_get_def)
    have prep: "prepare cfg (JObj kvs1) =
        (case normalize_content m of
           Inl e \<Rightarrow> Inl e
         | Inr None \<Rightarrow> Inr (Reject (JsonResponse 400 (error_body ''Invalid message content format'')))
         | Inr (Some content) \<Rightarrow>
             Inr (Proceed (dict_get d2 ''stream'' (JBool False)) content d1 kwargs))"
      "prepare cfg (JObj kvs2) =
        (case normalize_content m of
           Inl e \<Rightarrow> Inl e
         | Inr None \<Rightarrow> Inr (Reject (JsonResponse 400 (error_body ''Invalid message content format'')))
         | Inr (Some content) \<Rightarrow>
             Inr (Proceed (dict_get d2 ''stream'' (JBool False)) content d2 kwargs))"
      using Inr model ne msgs kw strm
      by (simp_all add: prepare_def Let_def flip: d1_def d2_def kwargs_def
          split: sum.splits option.splits)
    show ?thesis
    proof (cases "normalize_content m")
      case (Inl e)
      with prep show ?thesis by (simp add: create_message_prepare_raises)
    next
      case norm: (Inr prompt)
      show ?thesis
      proof (cases prompt)
        case None
        with norm prep show ?thesis by (simp add: create_message_prepare_rejects)
      next
        case (Some content)
        with norm prep have
          "prepare cfg (JObj kvs1)
             = Inr (Proceed (dict_get d2 ''stream'' (JBool False)) content d1 kwargs)"
          "prepare cfg (JObj kvs2)
             = Inr (Proceed (dict_get d2 ''stream'' (JBool False)) content d2 kwargs)"
          by simp_all
        then show ?thesis
          unfolding create_message_def create_message_body_def
          by (simp add: sys generate_system_only [OF sys])
      qed
    qed
  qed
qed

theorem later_messages_ignored_witness:
  "create_message stub_runtime default_config (claude_client default_config)
     (JObj [(''model'', JStr ''claude-3-haiku-20240307''),
            (''messages'', JArr [user_message (JStr ''hi''),
                                 JObj [(''role'', JStr ''assistant''), (''content'', JStr ''hello'')],
                                 user_message (JStr ''and then?'')])])
   = create_message stub_runtime default_config (claude_client default_config)
     (JObj [(''model'', JStr ''claude-3-haiku-20240307''),
            (''messages'', JArr [user_message (JStr ''hi'')])])"
  by (rule later_messages_ignored) simp_all

section \<open>The parameters of the SDK call\<close>

text \<open>
  Claim C2, as amended. The fields of the request that are held back are \<open>messages\<close>,
  \<open>system\<close> and \<open>stream\<close>; \<open>model\<close> is not among them. Every SDK call of a request
  carries every other field of the body with its value (a \<open>tools\<close> field only while the
  client has no tool list of its own, which would replace it); it carries as \<open>model\<close> the
  identifier the request's \<open>model\<close> field resolves to, which reaches the call as a
  passthrough parameter and replaces the client's own model; it carries no \<open>stream\<close>
  parameter; its \<open>messages\<close> are rebuilt as one user message around the prompt; and it
  carries the body's \<open>system\<close> exactly when that is true in Python's sense.
\<close>

theorem forwarded_parameters:
  assumes "c \<in> set (snd (create_message rt cfg cl (JObj kvs)))"
  shows "(\<forall>k v. map_of kvs k = Some v
             \<and> k \<notin> {''messages'', ''system'', ''stream'', ''model''}
             \<and> (k = ''tools'' \<longrightarrow> tools cl = [])
           \<longrightarrow> call_param k c = Some v) \<and>
         (\<exists>upstream_id. resolve_model cfg (dict_get (map_of kvs) ''model'' JNull) = Inr upstream_id
             \<and> call_param ''model'' c = Some (JStr upstream_id)) \<and>
         call_param ''stream'' c = None \<and>
         (\<exists>prompt. call_param ''messages'' c
             = Some (JArr [JObj [(''role'', JStr ''user''), (''content'', JStr prompt)]])) \<and>
         call_param ''system'' c
             = (if truthy (dict_get (map_of kvs) ''system'' JNull) then map_of kvs ''system''
                else None)"
proof -
  from create_message_calls [of rt cfg cl "JObj kvs"] assms
  obtain stream content d kwargs where
    prep: "prepare cfg (JObj kvs) = Inr (Proceed stream content d kwargs)" and
    call: "call_create_message cl content (dict_get d ''system'' JNull) (truthy stream) kwargs = Inr c"
    by auto
  from prepare_Proceed [OF prep] obtain upstream_id where
    rm: "resolve_model cfg (dict_get (map_of kvs) ''model'' JNull) = Inr upstream_id" and
    d: "d = (map_of kvs)(''model'' \<mapsto> JStr upstream_id)" and
    kw: "kwargs = d |` (- {''messages'', ''system'', ''stream''})"
    by auto
  note p = call_params_of [OF call]
  have fields: "call_param k c = Some v"
    if kv: "map_of kvs k = Some v" and kn: "k \<notin> {''messages'', ''system'', ''stream'', ''model''}"
      and kt: "k = ''tools'' \<longrightarrow> tools cl = []" for k v
  proof -
    from kv kn have kwk: "kwargs k = Some v"
      by (simp add: kw d restrict_map_def)
    consider "k = ''max_tokens''" | "k = ''tools''"
      | "k \<notin> {''max_tokens'', ''messages'', ''model'', ''system'', ''tools'', ''stream''}"
      using kn by auto
    then show ?thesis
    proof cases
      case 1
      with kwk p(2) show ?thesis by (simp add: call_param_def dict_get_def)
    next
      case 2
      with kwk p(4) kt show ?thesis by (simp add: call_param_def)
    next
      case 3
      with kwk p(6) [OF 3] show ?thesis by (simp add: call_param_def)
    qed
  qed
  have model: "call_param ''model'' c = Some (JStr upstream_id)"
    using p(1) by (simp add: call_param_def kw d restrict_map_def)
  have sys: "call_param ''system'' c
      = (if truthy (dict_get (map_of kvs) ''system'' JNull) then map_of kvs ''system'' else None)"
    using p(3) by (auto simp: call_param_def d dict_get_def split: option.splits)
  from call_messages_param [OF call] have msgs:
    "\<exists>prompt. call_param ''messages'' c
             = Some (JArr [JObj [(''role'', JStr ''user''), (''content'', JStr prompt)]])"
    by (simp add: call_param_def)
  from fields rm model p(5) msgs sys show ?thesis
    by (auto simp: call_param_def)
qed

lemma haiku_request_calls:
  "\<exists>kw. snd (create_message stub_runtime default_config (claude_client default_config)
       haiku_request) = [MessagesCreate kw]"
  by (simp add: handler_eval stub_eval)

theorem forwarded_parameters_witness:
  "map (call_param ''temperature'')
     (snd (create_message stub_runtime default_config (claude_client default_config) haiku_request))
     = [Some (JInt 0)] \<and>
   map (call_param ''max_tokens'')
     (snd (create_message stub_runtime default_config (claude_client default_config) haiku_request))
     = [Some (JInt 64)] \<and>
   map (call_param ''stream'')
     (snd (create_message stub_runtime default_config (claude_client default_config) haiku_request))
     = [None]"
proof -
  from haiku_request_calls obtain kw where calls:
    "snd (create_message stub_runtime default_config (claude_client default_config)
       haiku_request) = [MessagesCreate kw]" ..
  let ?kvs = "[(''model'', JStr ''claude-3-haiku-20240307''), (''max_tokens'', JInt 64),
       (''temperature'', JInt 0), (''messages'', JArr [user_message (JStr ''hi'')])]"
  have "MessagesCreate kw \<in> set (snd (create_message stub_runtime default_config
      (claude_client default_config) (JObj ?kvs)))"
    using calls by (simp add: haiku_request_def)
  note fwd = forwarded_parameters [OF this]
  have "map_of ?kvs ''temperature'' = Some (JInt 0)" "map_of ?kvs ''max_tokens'' = Some (JInt 64)"
    by simp_all
  with fwd have "call_param ''temperature'' (MessagesCreate kw) = Some (JInt 0)"
    "call_param ''max_tokens'' (MessagesCreate kw) = Some (JInt 64)"
    "call_param ''stream'' (MessagesCreate kw) = None"
    by simp_all
  with calls show ?thesis by simp
qed

text \<open>
  The claim as stated counts \<open>model\<close> among the reserved names, none of which would be
  passed through: the call would then carry the client's own model, the primary
  identifier. For a request that names a haiku alias the call carries the secondary
  identifier: the handler leaves \<open>model\<close> in \<^verbatim>\<open>kwargs\<close>, and the client filters only
  \<open>messages\<close> and \<open>system\<close> out and lets the rest replace the entries of its dict.
\<close>

theorem model_passed_through_counterexample:
  "map (call_param ''model'')
     (snd (create_message stub_runtime default_config (claude_client default_config) haiku_request))
     = [Some (JStr ''claude-3-5-haiku@20241022'')] \<and>
   model (claude_client default_config) = ''claude-3-7-sonnet@20250219'' \<and>
   ''model'' \<in> spec_reserved"
  by (simp add: handler_eval stub_eval call_param_def spec_reserved_def)

section \<open>The non-streaming response\<close>

lemma render_blocks_Inr:
  "render_blocks bs = Inr js \<Longrightarrow>
     \<exists>texts. map block_text bs = map Some texts \<and>
       js = map2 (\<lambda>b t. JObj [(''type'', JStr (block_type b)), (''text'', JStr t)]) bs texts"
proof (induction bs arbitrary: js)
  case Nil
  then show ?case by simp
next
  case (Cons b bs)
  from Cons.prems obtain t js' where t: "block_text b = Some t"
    and js': "render_blocks bs = Inr js'"
    and js: "js = JObj [(''type'', JStr (block_type b)), (''text'', JStr t)] # js'"
    by (auto split: option.splits sum.splits)
  from Cons.IH [OF js'] obtain texts where "map block_text bs = map Some texts"
    "js' = map2 (\<lambda>b t. JObj [(''type'', JStr (block_type b)), (''text'', JStr t)]) bs texts"
    by auto
  with t js have "map block_text (b # bs) = map Some (t # texts) \<and>
      js = map2 (\<lambda>b t. JObj [(''type'', JStr (block_type b)), (''text'', JStr t)]) (b # bs) (t # texts)"
    by simp
  then show ?case by blast
qed

lemma prepare_Reject:
  "prepare cfg data = Inr (Reject r) \<Longrightarrow> \<exists>msg. r = JsonResponse 400 (error_body msg)"
  by (auto simp: prepare_def Let_def split: if_splits json.splits sum.splits option.splits)

lemma generate_is_stream:
  "\<exists>events failure. fst (generate rt cfg cl content d kwargs) = EventStream events failure"
  by (auto simp: generate_def Let_def split: sum.splits upstream_call.splits prod.splits option.splits)

lemma create_message_200:
  assumes "fst (create_message rt cfg cl data) = JsonResponse 200 body"
  shows "\<exists>kw m. snd (create_message rt cfg cl data) = [MessagesCreate kw] \<and>
           messages_create rt kw = Inr m \<and> render_message m = Inr body"
proof (cases "prepare cfg data")
  case (Inl e)
  with assms show ?thesis by (simp add: create_message_prepare_raises)
next
  case (Inr p)
  show ?thesis
  proof (cases p)
    case (Reject r)
    with Inr prepare_Reject [of cfg data r] assms show ?thesis
      by (auto simp: create_message_prepare_rejects)
  next
    case (Proceed stream content d kwargs)
    show ?thesis
    proof (cases "truthy stream")
      case True
      with Inr Proceed have "create_message rt cfg cl data = generate rt cfg cl content d kwargs"
        by (simp add: body_streaming)
      with generate_is_stream [of rt cfg cl content d kwargs] assms show ?thesis
        by auto
    next
      case False
      with Inr Proceed assms show ?thesis
        by (auto simp: create_message_def create_message_body_def
            split: sum.splits upstream_call.splits)
    qed
  qed
qed

text \<open>
  Claim C4, as amended. Whenever the handler answers with status 200 and a JSON body,
  it has made one call of \<^verbatim>\<open>messages.create\<close>, which returned a message all of whose
  content blocks have a text, and the body consists of exactly eight fields taken from
  that message: \<open>id\<close>, \<open>content\<close> (one object with exactly \<open>type\<close> and \<open>text\<close> for each
  block, in order), \<open>model\<close>, \<open>role\<close>, \<open>stop_reason\<close>, \<open>stop_sequence\<close> (\<^verbatim>\<open>null\<close> when
  absent), \<open>type\<close>, and \<open>usage\<close> with exactly \<open>input_tokens\<close>, \<open>output_tokens\<close>,
  \<open>cache_creation_input_tokens\<close> and \<open>cache_read_input_tokens\<close>.
\<close>

theorem non_streaming_response_body:
  assumes "fst (create_message rt cfg cl data) = JsonResponse 200 body"
  shows "\<exists>kw m texts.
           snd (create_message rt cfg cl data) = [MessagesCreate kw] \<and>
           messages_create rt kw = Inr m \<and>
           map block_text (msg_content m) = map Some texts \<and>
           body = JObj
             [(''id'', JStr (msg_id m)),
              (''content'', JArr (map2 (\<lambda>b t. JObj [(''type'', JStr (block_type b)), (''text'', JStr t)])
                                   (msg_content m) texts)),
              (''model'', JStr (msg_model m)),
              (''role'', JStr (msg_role m)),
              (''stop_reason'', case msg_stop_reason m of None \<Rightarrow> JNull | Some s \<Rightarrow> JStr s),
              (''stop_sequence'', case msg_stop_sequence m of None \<Rightarrow> JNull | Some s \<Rightarrow> JStr s),
              (''type'', JStr (msg_type m)),
              (''usage'',
               JObj [(''input_tokens'', JInt (input_tokens (msg_usage m))),
                     (''output_tokens'', JInt (output_tokens (msg_usage m))),
                     (''cache_creation_input_tokens'',
                      case cache_creation_input_tokens (msg_usage m) of
                        None \<Rightarrow> JNull | Some n \<Rightarrow> JInt n),
                     (''cache_read_input_tokens'',
                      case cache_read_input_tokens (msg_usage m) of
                        None \<Rightarrow> JNull | Some n \<Rightarrow> JInt n)])]"
proof -
  from create_message_200 [OF assms] obtain kw m where
    calls: "snd (create_message rt cfg cl data) = [MessagesCreate kw]" and
    m: "messages_create rt kw = Inr m" and body: "render_message m = Inr body"
    by auto
  from body obtain blocks where blocks: "render_blocks (msg_content m) = Inr blocks"
    and b: "body = JObj [(''id'', JStr (msg_id m)),
                     (''content'', JArr blocks),
                     (''model'', JStr (msg_model m)),
                     (''role'', JStr (msg_role m)),
                     (''stop_reason'', opt_str (msg_stop_reason m)),
                     (''stop_sequence'', opt_str (msg_stop_sequence m)),
                     (''type'', JStr (msg_type m)),
                     (''usage'',
                      JObj [(''input_tokens'', JInt (input_tokens (msg_usage m))),
                            (''output_tokens'', JInt (output_tokens (msg_usage m))),
                            (''cache_creation_input_tokens'',
                             opt_int (cache_creation_input_tokens (msg_usage m))),
                            (''cache_read_input_tokens'',
                             opt_int (cache_read_input_tokens (msg_usage m)))])]"
    by (auto simp: render_message_def split: sum.splits)
  from render_blocks_Inr [OF blocks] obtain texts where
    "map block_text (msg_content m) = map Some texts"
    "blocks = map2 (\<lambda>b t. JObj [(''type'', JStr (block_type b)), (''text'', JStr t)])
                (msg_content m) texts"
    by auto
  with calls m b show ?thesis
    unfolding opt_str_def opt_int_def by blast
qed

lemma haiku_request_response:
  "fst (create_message stub_runtime default_config (claude_client default_config) haiku_request)
   = JsonResponse 200
       (JObj [(''id'', JStr ''msg_01''),
              (''content'', JArr [JObj [(''type'', JStr ''text''), (''text'', JStr ''Hello'')]]),
              (''model'', JStr ''claude-3-7-sonnet@20250219''),
              (''role'', JStr ''assistant''),
              (''stop_reason'', JStr ''end_turn''),
              (''stop_sequence'', JNull),
              (''type'', JStr ''message''),
              (''usage'', JObj [(''input_tokens'', JInt 10), (''output_tokens'', JInt 5),
                                (''cache_creation_input_tokens'', JNull),
                                (''cache_read_input_tokens'', JInt 0)])])"
  by (simp add: handler_eval stub_eval)

theorem non_streaming_response_body_witness:
  "json_keys (response_body (fst (create_message stub_runtime default_config
      (claude_client default_config) haiku_request)))
   = [''id'', ''content'', ''model'', ''role'', ''stop_reason'', ''stop_sequence'', ''type'',
      ''usage'']"
proof -
  from non_streaming_response_body [OF haiku_request_response]
  obtain fields where "response_body (fst (create_message stub_runtime default_config
      (claude_client default_config) haiku_request)) = JObj fields"
    and "map fst fields = [''id'', ''content'', ''model'', ''role'', ''stop_reason'',
      ''stop_sequence'', ''type'', ''usage'']"
    by (auto simp: haiku_request_response)
  then show ?thesis by simp
qed

text \<open>
  The claim as stated allows the seven fields that section 3 of the specification
  enumerates and no other: the body has an eighth, \<open>type\<close>.
\<close>

theorem response_type_field_counterexample:
  "''type'' \<in> set (json_keys (response_body (fst (create_message stub_runtime default_config
      (claude_client default_config) haiku_request)))) \<and>
   ''type'' \<notin> set spec_chat_response_fields"
  by (simp add: haiku_request_response spec_chat_response_fields_def)

section \<open>Failures\<close>








end
